theory Spec2Isabelle
  imports Complex_Main "HOL-Library.Multiset"
begin

section \<open>JavaScript values used by the engines\<close>

text \<open>
  Both engines keep their tables in plain object literals and read them with
  \<^verbatim>\<open>obj[key]\<close>. Such a read finds the object's own properties first and then the
  members every object inherits from \<^verbatim>\<open>Object.prototype\<close>; only a key found in neither
  place reads as \<^verbatim>\<open>undefined\<close>. The inherited members are functions (and, for
  \<^verbatim>\<open>__proto__\<close>, the prototype object itself): truthy values that are neither arrays
  nor rule objects.
\<close>

datatype 'a jsprop = Undefined | Own 'a | Inherited

definition objectPrototypeKeys :: "string list" where
  "objectPrototypeKeys =
     [''constructor'', ''__defineGetter__'', ''__defineSetter__'', ''hasOwnProperty'',
      ''__lookupGetter__'', ''__lookupSetter__'', ''isPrototypeOf'',
      ''propertyIsEnumerable'', ''toString'', ''valueOf'', ''__proto__'',
      ''toLocaleString'']"

definition js_get :: "(string \<rightharpoonup> 'a) \<Rightarrow> string \<Rightarrow> 'a jsprop" where
  "js_get obj k =
     (case obj k of
        Some v \<Rightarrow> Own v
      | None \<Rightarrow> if k \<in> set objectPrototypeKeys then Inherited else Undefined)"

text \<open>\<^verbatim>\<open>new Date(x)\<close> drops the fraction of a millisecond count (towards zero).\<close>

definition timeClip :: "rat \<Rightarrow> int" where
  "timeClip x = (if 0 \<le> x then \<lfloor>x\<rfloor> else \<lceil>x\<rceil>)"

definition msPerHour :: int where
  "msPerHour = 1000 * 60 * 60"

section \<open>The store\<close>

text \<open>
  The relational store is the external collaborator of the engines. It is modelled as
  in-memory tables whose reads and writes always succeed; a transaction is the
  function from the tables before to the tables after. Timestamps are milliseconds
  since the epoch, and the wall clock is the parameter \<open>now\<close> of every operation
  that reads it.
\<close>

datatype error = LeadNotFound | InvalidTransition string string | TypeError string

fun errorMessage :: "error \<Rightarrow> string" where
  "errorMessage LeadNotFound = ''Lead not found''"
| "errorMessage (InvalidTransition a b) = ''Invalid transition from '' @ a @ '' to '' @ b"
| "errorMessage (TypeError m) = m"

record lead =
  stage :: string
  engagement_score :: int
  product_id :: string
  updated_at :: int

record event_metadata =
  high_value_action :: bool
  conversion :: bool

record event =
  event_id :: string
  ev_lead_id :: string
  event_type :: string
  channel :: string
  timestamp :: int
  metadata :: "event_metadata option"
  score_impact :: "int option"

record condition_details =
  d_engagement_score :: "(int \<times> int \<times> bool) option"
  d_event_count :: "(int \<times> nat \<times> bool) option"
  d_time_window :: "(rat \<times> nat \<times> int \<times> bool) option"
  d_conversion_event :: "bool option"
  d_required_event_types :: "(string list \<times> string list \<times> string list \<times> bool) option"

record evaluation =
  met :: bool
  details :: condition_details
  failedConditions :: "string list"

record transition_metadata =
  md_caller :: "(string \<times> string) list"
  md_evaluation :: "evaluation option"
  md_auto_progression :: bool
  md_forced_transition :: bool

record stage_transition =
  st_lead_id :: string
  from_stage :: string
  to_stage :: string
  trigger_reason :: string
  st_metadata :: transition_metadata
  transition_at :: int

record db =
  leads :: "string \<rightharpoonup> lead"
  engagement_events :: "event list"
  stage_transitions :: "stage_transition list"
  product_configs :: "string \<rightharpoonup> (string \<times> rat) list"

section \<open>Stage transition engine\<close>

definition validTransitions :: "string \<rightharpoonup> string list" where
  "validTransitions =
     [''User'' \<mapsto> [''Engaged_Lead''],
      ''Engaged_Lead'' \<mapsto> [''Qualified_Lead'', ''User''],
      ''Qualified_Lead'' \<mapsto> [''Customer'', ''Engaged_Lead''],
      ''Customer'' \<mapsto> []]"

text \<open>
  \<^verbatim>\<open>isValidTransition\<close>: a falsy table entry gives \<^verbatim>\<open>false\<close>; otherwise the
  entry's \<^verbatim>\<open>includes\<close> is called. The inherited members have no \<^verbatim>\<open>includes\<close>,
  so the call throws a TypeError. An array, even the empty one, is truthy.
\<close>

definition isValidTransition :: "string \<Rightarrow> string \<Rightarrow> error + bool" where
  "isValidTransition fromStage toStage =
     (case js_get validTransitions fromStage of
        Undefined \<Rightarrow> Inr False
      | Own nexts \<Rightarrow> Inr (toStage \<in> set nexts)
      | Inherited \<Rightarrow>
          Inl (TypeError ''this.validTransitions[fromStage].includes is not a function''))"

text \<open>
  \<^verbatim>\<open>getNextStages\<close> returns the table entry when it is truthy and a fresh empty
  array otherwise; for an inherited member the value returned is that member.
\<close>

datatype next_stages = StageArray "string list" | PrototypeMember

definition getNextStages :: "string \<Rightarrow> next_stages" where
  "getNextStages currentStage =
     (case js_get validTransitions currentStage of
        Undefined \<Rightarrow> StageArray []
      | Own nexts \<Rightarrow> StageArray nexts
      | Inherited \<Rightarrow> PrototypeMember)"

record conditions =
  min_engagement_score :: "int option"
  min_events :: "int option"
  time_window_hours :: "rat option"
  conversion_event :: bool
  required_event_types :: "string list option"

record progression_rule =
  rule_to :: string
  rule_conditions :: conditions

definition defaultRules :: "string \<rightharpoonup> progression_rule" where
  "defaultRules =
     [''User'' \<mapsto>
        \<lparr>rule_to = ''Engaged_Lead'',
         rule_conditions = \<lparr>min_engagement_score = Some 50, min_events = Some 3,
           time_window_hours = Some 168, conversion_event = False,
           required_event_types = None\<rparr>\<rparr>,
      ''Engaged_Lead'' \<mapsto>
        \<lparr>rule_to = ''Qualified_Lead'',
         rule_conditions = \<lparr>min_engagement_score = Some 150, min_events = Some 8,
           time_window_hours = Some 336, conversion_event = False,
           required_event_types = None\<rparr>\<rparr>,
      ''Qualified_Lead'' \<mapsto>
        \<lparr>rule_to = ''Customer'',
         rule_conditions = \<lparr>min_engagement_score = Some 300, min_events = None,
           time_window_hours = None, conversion_event = True,
           required_event_types = None\<rparr>\<rparr>]"

text \<open>
  \<^verbatim>\<open>Lead.findById\<close> builds a \<^verbatim>\<open>Lead\<close> from the row, and the constructor
  reads the stage as \<^verbatim>\<open>data.stage || 'User'\<close>: an empty stage reads as \<open>User\<close>.
\<close>

definition findById :: "db \<Rightarrow> string \<Rightarrow> lead option" where
  "findById d leadId =
     (case leads d leadId of
        None \<Rightarrow> None
      | Some row \<Rightarrow> Some (row\<lparr>stage := (if stage row = [] then ''User'' else stage row)\<rparr>))"

text \<open>
  \<^verbatim>\<open>getLeadEvents\<close>: the lead's events, newest first, at most \<open>limit\<close> of them.
  SQL leaves the order of rows with equal timestamps open; here they keep their table
  order (reversed by the descending sort).
\<close>

definition getLeadEvents :: "db \<Rightarrow> string \<Rightarrow> nat \<Rightarrow> event list" where
  "getLeadEvents d leadId limit =
     take limit (rev (sort_key timestamp
       (filter (\<lambda>e. ev_lead_id e = leadId) (engagement_events d))))"

definition emptyEvaluation :: evaluation where
  "emptyEvaluation =
     \<lparr>met = True,
      details = \<lparr>d_engagement_score = None, d_event_count = None, d_time_window = None,
        d_conversion_event = None, d_required_event_types = None\<rparr>,
      failedConditions = []\<rparr>"

definition failCondition :: "bool \<Rightarrow> string \<Rightarrow> evaluation \<Rightarrow> evaluation" where
  "failCondition ok name ev =
     (if ok then ev else ev\<lparr>met := False, failedConditions := failedConditions ev @ [name]\<rparr>)"

definition checkScore :: "lead \<Rightarrow> conditions \<Rightarrow> evaluation \<Rightarrow> evaluation" where
  "checkScore ld c ev =
     (case min_engagement_score c of
        None \<Rightarrow> ev
      | Some required \<Rightarrow>
          let scoreMet = (engagement_score ld \<ge> required) in
          failCondition scoreMet ''min_engagement_score''
            (ev\<lparr>details := (details ev)\<lparr>d_engagement_score :=
               Some (required, engagement_score ld, scoreMet)\<rparr>\<rparr>))"

definition checkEventCount :: "event list \<Rightarrow> conditions \<Rightarrow> evaluation \<Rightarrow> evaluation" where
  "checkEventCount events c ev =
     (case min_events c of
        None \<Rightarrow> ev
      | Some required \<Rightarrow>
          let eventsMet = (int (length events) \<ge> required) in
          failCondition eventsMet ''min_events''
            (ev\<lparr>details := (details ev)\<lparr>d_event_count :=
               Some (required, length events, eventsMet)\<rparr>\<rparr>))"

definition checkTimeWindow ::
  "int \<Rightarrow> event list \<Rightarrow> conditions \<Rightarrow> evaluation \<Rightarrow> evaluation" where
  "checkTimeWindow now events c ev =
     (case time_window_hours c of
        None \<Rightarrow> ev
      | Some hours \<Rightarrow>
          let cutoffTime = timeClip (of_int now - hours * 60 * 60 * 1000);
              recentEvents = filter (\<lambda>e. timestamp e \<ge> cutoffTime) events;
              needed = (case min_events c of
                          None \<Rightarrow> 1
                        | Some m \<Rightarrow> if m = 0 then 1 else m);
              timeWindowMet = (int (length recentEvents) \<ge> needed) in
          failCondition timeWindowMet ''time_window_hours''
            (ev\<lparr>details := (details ev)\<lparr>d_time_window :=
               Some (hours, length recentEvents, cutoffTime, timeWindowMet)\<rparr>\<rparr>))"

definition checkConversion :: "event list \<Rightarrow> conditions \<Rightarrow> evaluation \<Rightarrow> evaluation" where
  "checkConversion events c ev =
     (if conversion_event c then
        let hasConversionEvent =
              list_ex (\<lambda>e. case metadata e of None \<Rightarrow> False | Some m \<Rightarrow> conversion m) events in
        failCondition hasConversionEvent ''conversion_event''
          (ev\<lparr>details := (details ev)\<lparr>d_conversion_event := Some hasConversionEvent\<rparr>\<rparr>)
      else ev)"

definition checkEventTypes :: "event list \<Rightarrow> conditions \<Rightarrow> evaluation \<Rightarrow> evaluation" where
  "checkEventTypes events c ev =
     (case required_event_types c of
        None \<Rightarrow> ev
      | Some required \<Rightarrow>
          let eventTypes = rev (remdups (rev (map event_type events)));
              missingTypes = filter (\<lambda>t. t \<notin> set eventTypes) required;
              eventTypesMet = (missingTypes = []) in
          failCondition eventTypesMet ''required_event_types''
            (ev\<lparr>details := (details ev)\<lparr>d_required_event_types :=
               Some (required, eventTypes, missingTypes, eventTypesMet)\<rparr>\<rparr>))"

definition evaluateConditions ::
  "int \<Rightarrow> lead \<Rightarrow> event list \<Rightarrow> conditions \<Rightarrow> evaluation" where
  "evaluateConditions now ld events c =
     checkEventTypes events c
       (checkConversion events c
         (checkTimeWindow now events c
           (checkEventCount events c
             (checkScore ld c emptyEvaluation))))"

record product_config =
  progression_rules :: "(string \<rightharpoonup> progression_rule) option"

datatype progression =
    NoProgressionRule string
  | Progression bool string string evaluation string

text \<open>
  \<^verbatim>\<open>evaluateProgression\<close> reads the store only. The rule table is the product's
  \<^verbatim>\<open>progression_rules\<close> when present, the defaults otherwise; it is read with
  \<^verbatim>\<open>rules[lead.stage]\<close>, so an inherited member passes the truthiness test and the
  read of its missing \<^verbatim>\<open>conditions\<close> throws in \<^verbatim>\<open>evaluateConditions\<close>.
\<close>

definition evaluateProgression ::
  "db \<Rightarrow> int \<Rightarrow> string \<Rightarrow> product_config option \<Rightarrow> error + progression" where
  "evaluateProgression d now leadId productConfig =
     (case findById d leadId of
        None \<Rightarrow> Inl LeadNotFound
      | Some ld \<Rightarrow>
          let events = getLeadEvents d leadId 1000;
              rules = (case productConfig of
                         None \<Rightarrow> defaultRules
                       | Some pc \<Rightarrow>
                           (case progression_rules pc of
                              None \<Rightarrow> defaultRules
                            | Some r \<Rightarrow> r)) in
          (case js_get rules (stage ld) of
             Undefined \<Rightarrow> Inr (NoProgressionRule ''No progression rule defined'')
           | Inherited \<Rightarrow>
               Inl (TypeError
                 ''Cannot read properties of undefined (reading min_engagement_score)'')
           | Own rule \<Rightarrow>
               let ev = evaluateConditions now ld events (rule_conditions rule) in
               Inr (Progression (met ev) (rule_to rule) (stage ld) ev leadId)))"

record transition_result =
  success :: bool
  tr_leadId :: string
  oldStage :: string
  newStage :: string
  tr_reason :: string
  forced :: bool
  tr_timestamp :: int

text \<open>
  The body of the transaction shared by \<^verbatim>\<open>executeTransition\<close> and
  \<^verbatim>\<open>forceTransition\<close>: the \<^verbatim>\<open>UPDATE\<close> of the lead's row, then the \<^verbatim>\<open>INSERT\<close>
  of one audit row.
\<close>

definition writeTransition ::
  "db \<Rightarrow> int \<Rightarrow> string \<Rightarrow> string \<Rightarrow> string \<Rightarrow> string \<Rightarrow> transition_metadata \<Rightarrow> db" where
  "writeTransition d now leadId old new reason md =
     d\<lparr>leads := (case leads d leadId of
                   None \<Rightarrow> leads d
                 | Some ld \<Rightarrow> (leads d)(leadId \<mapsto> ld\<lparr>stage := new, updated_at := now\<rparr>)),
       stage_transitions := stage_transitions d @
         [\<lparr>st_lead_id = leadId, from_stage = old, to_stage = new, trigger_reason = reason,
           st_metadata = md, transition_at = now\<rparr>]\<rparr>"

definition executeTransition ::
  "db \<Rightarrow> int \<Rightarrow> string \<Rightarrow> string \<Rightarrow> string \<Rightarrow> transition_metadata
     \<Rightarrow> (error + transition_result) \<times> db" where
  "executeTransition d now leadId new reason md =
     (case findById d leadId of
        None \<Rightarrow> (Inl LeadNotFound, d)
      | Some ld \<Rightarrow>
          let old = stage ld in
          (case isValidTransition old new of
             Inl e \<Rightarrow> (Inl e, d)
           | Inr valid \<Rightarrow>
               if \<not> valid then (Inl (InvalidTransition old new), d)
               else
                 (Inr \<lparr>success = True, tr_leadId = leadId, oldStage = old, newStage = new,
                       tr_reason = reason, forced = False, tr_timestamp = now\<rparr>,
                  writeTransition d now leadId old new reason md)))"

definition forceTransition ::
  "db \<Rightarrow> int \<Rightarrow> string \<Rightarrow> string \<Rightarrow> string \<Rightarrow> transition_metadata
     \<Rightarrow> (error + transition_result) \<times> db" where
  "forceTransition d now leadId new reason md =
     (case findById d leadId of
        None \<Rightarrow> (Inl LeadNotFound, d)
      | Some ld \<Rightarrow>
          let old = stage ld in
          (Inr \<lparr>success = True, tr_leadId = leadId, oldStage = old, newStage = new,
                tr_reason = reason, forced = True, tr_timestamp = now\<rparr>,
           writeTransition d now leadId old new reason (md\<lparr>md_forced_transition := True\<rparr>)))"

datatype auto_result =
    NotProgressed string "evaluation option"
  | Progressed transition_result evaluation

definition autoProgressLead ::
  "db \<Rightarrow> int \<Rightarrow> string \<Rightarrow> product_config option \<Rightarrow> (error + auto_result) \<times> db" where
  "autoProgressLead d now leadId productConfig =
     (case evaluateProgression d now leadId productConfig of
        Inl e \<Rightarrow> (Inl e, d)
      | Inr (NoProgressionRule r) \<Rightarrow> (Inr (NotProgressed ''Conditions not met'' None), d)
      | Inr (Progression can target current ev lid) \<Rightarrow>
          if \<not> can then (Inr (NotProgressed ''Conditions not met'' (Some ev)), d)
          else
            (case executeTransition d now leadId target
                    ''Auto-progression based on engagement criteria''
                    \<lparr>md_caller = [], md_evaluation = Some ev, md_auto_progression = True,
                     md_forced_transition = False\<rparr> of
               (Inl e, d') \<Rightarrow> (Inl e, d')
             | (Inr res, d') \<Rightarrow> (Inr (Progressed res ev), d')))"

record batch_entry =
  be_leadId :: string
  be_progressed :: bool
  be_error :: "string option"
  be_result :: "auto_result option"

text \<open>
  One step of the loop of \<^verbatim>\<open>batchAutoProgress\<close>. The entry of a returned result
  is \<^verbatim>\<open>{ leadId, ...result }\<close>: the result's own \<^verbatim>\<open>leadId\<close>, when it has one,
  replaces the loop's.
\<close>

definition resultEntry :: "string \<Rightarrow> auto_result \<Rightarrow> batch_entry" where
  "resultEntry leadId r =
     (case r of
        NotProgressed reason ev \<Rightarrow>
          \<lparr>be_leadId = leadId, be_progressed = False, be_error = None, be_result = Some r\<rparr>
      | Progressed res ev \<Rightarrow>
          \<lparr>be_leadId = tr_leadId res, be_progressed = True, be_error = None,
           be_result = Some r\<rparr>)"

definition errorEntry :: "string \<Rightarrow> error \<Rightarrow> batch_entry" where
  "errorEntry leadId e =
     \<lparr>be_leadId = leadId, be_progressed = False, be_error = Some (errorMessage e),
      be_result = None\<rparr>"

fun batchAutoProgress ::
  "db \<Rightarrow> int \<Rightarrow> string list \<Rightarrow> product_config option \<Rightarrow> batch_entry list \<times> db" where
  "batchAutoProgress d now [] productConfig = ([], d)"
| "batchAutoProgress d now (leadId # rest) productConfig =
     (case autoProgressLead d now leadId productConfig of
        (outcome, d') \<Rightarrow>
          (case batchAutoProgress d' now rest productConfig of
             (results, d'') \<Rightarrow>
               ((case outcome of
                   Inr r \<Rightarrow> resultEntry leadId r
                 | Inl e \<Rightarrow> errorEntry leadId e) # results, d'')))"

section \<open>Numbers of the scoring engine\<close>

text \<open>
  The scoring engine computes with JavaScript numbers: IEEE-754 binary64 values with
  the default rounding (to nearest, ties to even), overflow to an infinity, and NaN.
  \<open>Num x\<close> is the finite double whose exact value is the rational \<open>x\<close>. The sign
  of a zero is not kept: the engine divides by the constants 3600000 and 24 only.
\<close>

datatype jsnum = Num rat | PosInf | NegInf | NaN

text \<open>The number of binary digits of a positive integer.\<close>

function bits :: "int \<Rightarrow> int" where
  "bits n = (if n \<le> 0 then 0 else 1 + bits (n div 2))"
  by pat_completeness auto
termination
  by (relation "measure nat") auto

declare bits.simps [simp del]

definition pow2 :: "int \<Rightarrow> rat" where
  "pow2 k = (if 0 \<le> k then 2 ^ nat k else 1 / 2 ^ nat (- k))"

text \<open>For \<open>x > 0\<close>, the exponent \<open>e\<close> with \<open>pow2 e \<le> x < pow2 (e + 1)\<close>.\<close>

definition floorLog2 :: "rat \<Rightarrow> int" where
  "floorLog2 x =
     (if 1 \<le> x then bits \<lfloor>x\<rfloor> - 1 else - bits (\<lceil>1 / x\<rceil> - 1))"

definition roundHalfEven :: "rat \<Rightarrow> int" where
  "roundHalfEven q =
     (let n = \<lfloor>q\<rfloor>; r = q - of_int n in
      if r < 1 / 2 then n
      else if 1 / 2 < r then n + 1
      else if even n then n else n + 1)"

text \<open>
  The double nearest to a rational: 53 significant bits at the exponent of \<open>x\<close>,
  and multiples of \<open>pow2 (- 1074)\<close> below the normal range.
\<close>

definition dbl :: "rat \<Rightarrow> rat" where
  "dbl x =
     (if x = 0 then 0
      else let e = max (floorLog2 \<bar>x\<bar>) (- 1022);
               ulp = pow2 (e - 52)
           in of_int (roundHalfEven (x / ulp)) * ulp)"

text \<open>The result of an arithmetic operation whose exact value is \<open>x\<close>.\<close>

definition fl :: "rat \<Rightarrow> jsnum" where
  "fl x =
     (if 2 ^ 1024 \<le> \<bar>x\<bar> then (if 0 < x then PosInf else NegInf)
      else let y = dbl x in
           if 2 ^ 1024 \<le> y then PosInf
           else if y \<le> - (2 ^ 1024) then NegInf
           else Num y)"

fun jneg :: "jsnum \<Rightarrow> jsnum" where
  "jneg (Num a) = Num (- a)"
| "jneg PosInf = NegInf"
| "jneg NegInf = PosInf"
| "jneg NaN = NaN"

fun jadd :: "jsnum \<Rightarrow> jsnum \<Rightarrow> jsnum" where
  "jadd (Num a) (Num b) = fl (a + b)"
| "jadd NaN y = NaN"
| "jadd x NaN = NaN"
| "jadd PosInf NegInf = NaN"
| "jadd NegInf PosInf = NaN"
| "jadd PosInf y = PosInf"
| "jadd x PosInf = PosInf"
| "jadd NegInf y = NegInf"
| "jadd x NegInf = NegInf"

definition jsub :: "jsnum \<Rightarrow> jsnum \<Rightarrow> jsnum" where
  "jsub x y = jadd x (jneg y)"

fun jsign :: "jsnum \<Rightarrow> int" where
  "jsign (Num a) = (if 0 < a then 1 else if a < 0 then - 1 else 0)"
| "jsign PosInf = 1"
| "jsign NegInf = - 1"
| "jsign NaN = 0"

fun jmul :: "jsnum \<Rightarrow> jsnum \<Rightarrow> jsnum" where
  "jmul (Num a) (Num b) = fl (a * b)"
| "jmul NaN y = NaN"
| "jmul x NaN = NaN"
| "jmul x y =
     (let s = jsign x * jsign y in
      if s = 0 then NaN else if 0 < s then PosInf else NegInf)"

text \<open>Division by a positive finite constant.\<close>

fun jdiv :: "jsnum \<Rightarrow> rat \<Rightarrow> jsnum" where
  "jdiv (Num a) c = fl (a / c)"
| "jdiv x c = x"

text \<open>\<^verbatim>\<open>x <= y\<close>: false as soon as one side is NaN.\<close>

fun jle :: "jsnum \<Rightarrow> jsnum \<Rightarrow> bool" where
  "jle (Num a) (Num b) = (a \<le> b)"
| "jle NaN y = False"
| "jle x NaN = False"
| "jle NegInf y = True"
| "jle x PosInf = True"
| "jle x y = False"

text \<open>
  \<^verbatim>\<open>Math.round\<close> rounds a finite number to the nearest integer, halves towards plus
  infinity; \<^verbatim>\<open>Math.floor\<close> rounds it down. Both return an infinity or NaN unchanged.
\<close>

fun Math_round :: "jsnum \<Rightarrow> jsnum" where
  "Math_round (Num a) = Num (of_int \<lfloor>a + 1 / 2\<rfloor>)"
| "Math_round x = x"

fun Math_floor :: "jsnum \<Rightarrow> jsnum" where
  "Math_floor (Num a) = Num (of_int \<lfloor>a\<rfloor>)"
| "Math_floor x = x"

text \<open>\<^verbatim>\<open>Math.min\<close> and \<^verbatim>\<open>Math.max\<close> of two numbers: NaN when either is NaN.\<close>

definition Math_min :: "jsnum \<Rightarrow> jsnum \<Rightarrow> jsnum" where
  "Math_min x y = (if x = NaN \<or> y = NaN then NaN else if jle x y then x else y)"

definition Math_max :: "jsnum \<Rightarrow> jsnum \<Rightarrow> jsnum" where
  "Math_max x y = (if x = NaN \<or> y = NaN then NaN else if jle x y then y else x)"

text \<open>
  \<^verbatim>\<open>new Date(x)\<close> for a number: an invalid date when \<open>x\<close> is not finite or beyond
  8.64e15 milliseconds, otherwise \<open>x\<close> without its fraction.
\<close>

fun dateOf :: "jsnum \<Rightarrow> int option" where
  "dateOf (Num x) = (if \<bar>x\<bar> \<le> 8640000000000000 then Some (timeClip x) else None)"
| "dateOf x = None"

text \<open>
  \<^verbatim>\<open>Math.pow\<close> is left to the platform: the language standard asks only for an
  approximation of the power. The engine's functions take it as the parameter \<open>pw\<close>.
  \<open>roundedPow\<close> is one such function, the correctly rounded power of a finite base
  at a natural exponent (at exponent 1 it is the base).
\<close>

type_synonym math_pow = "jsnum \<Rightarrow> jsnum \<Rightarrow> jsnum"

fun roundedPow :: math_pow where
  "roundedPow (Num b) (Num n) = (if 0 \<le> n \<and> of_int \<lfloor>n\<rfloor> = n then fl (b ^ nat \<lfloor>n\<rfloor>) else NaN)"
| "roundedPow x y = NaN"

section \<open>Engagement scoring engine\<close>

text \<open>
  The coefficients of a rule set are finite doubles, kept as their exact values; a
  decimal literal of the source such as \<^verbatim>\<open>0.8\<close> is the double nearest to it.
\<close>

record scoring_rules =
  login_points :: rat
  email_open_points :: rat
  email_click_points :: rat
  whatsapp_reply_points :: rat
  chatbot_interaction_points :: rat
  email_engagement_multiplier :: rat
  repeat_engagement_decay :: rat
  time_decay_factor :: rat
  engaged_lead_threshold :: rat
  qualified_lead_threshold :: rat
  customer_threshold :: rat
  high_value_action_bonus :: rat
  first_time_bonus :: rat
  consecutive_days_bonus :: rat
  recent_activity_window :: rat
  engagement_window :: rat
  decay_start_hours :: rat

definition defaultScoringRules :: scoring_rules where
  "defaultScoringRules =
     \<lparr>login_points = 10, email_open_points = 5, email_click_points = 15,
      whatsapp_reply_points = 20, chatbot_interaction_points = 10,
      email_engagement_multiplier = 1, repeat_engagement_decay = dbl (8 / 10),
      time_decay_factor = dbl (95 / 100),
      engaged_lead_threshold = 50, qualified_lead_threshold = 150, customer_threshold = 300,
      high_value_action_bonus = dbl (5 / 10), first_time_bonus = dbl (12 / 10),
      consecutive_days_bonus = dbl (1 / 10),
      recent_activity_window = 24, engagement_window = 168, decay_start_hours = 72\<rparr>"

text \<open>
  A product's \<^verbatim>\<open>scoring_rules\<close> column is a JSON object, kept here as its list of
  key/value pairs (the values as parsed, finite doubles).
  \<^verbatim>\<open>{...defaults, ...productRules}\<close> copies them over the defaults in order; keys the
  engine never reads are dropped.
\<close>

definition setRule :: "scoring_rules \<Rightarrow> string \<times> rat \<Rightarrow> scoring_rules" where
  "setRule r kv =
     (case kv of (k, v) \<Rightarrow>
        if k = ''login_points'' then r\<lparr>login_points := v\<rparr>
        else if k = ''email_open_points'' then r\<lparr>email_open_points := v\<rparr>
        else if k = ''email_click_points'' then r\<lparr>email_click_points := v\<rparr>
        else if k = ''whatsapp_reply_points'' then r\<lparr>whatsapp_reply_points := v\<rparr>
        else if k = ''chatbot_interaction_points'' then r\<lparr>chatbot_interaction_points := v\<rparr>
        else if k = ''email_engagement_multiplier'' then r\<lparr>email_engagement_multiplier := v\<rparr>
        else if k = ''repeat_engagement_decay'' then r\<lparr>repeat_engagement_decay := v\<rparr>
        else if k = ''time_decay_factor'' then r\<lparr>time_decay_factor := v\<rparr>
        else if k = ''engaged_lead_threshold'' then r\<lparr>engaged_lead_threshold := v\<rparr>
        else if k = ''qualified_lead_threshold'' then r\<lparr>qualified_lead_threshold := v\<rparr>
        else if k = ''customer_threshold'' then r\<lparr>customer_threshold := v\<rparr>
        else if k = ''high_value_action_bonus'' then r\<lparr>high_value_action_bonus := v\<rparr>
        else if k = ''first_time_bonus'' then r\<lparr>first_time_bonus := v\<rparr>
        else if k = ''consecutive_days_bonus'' then r\<lparr>consecutive_days_bonus := v\<rparr>
        else if k = ''recent_activity_window'' then r\<lparr>recent_activity_window := v\<rparr>
        else if k = ''engagement_window'' then r\<lparr>engagement_window := v\<rparr>
        else if k = ''decay_start_hours'' then r\<lparr>decay_start_hours := v\<rparr>
        else r)"

definition mergeRules :: "scoring_rules \<Rightarrow> (string \<times> rat) list \<Rightarrow> scoring_rules" where
  "mergeRules defaults productRules = foldl setRule defaults productRules"

text \<open>The engine's own state: the cache of rule sets by product id.\<close>

record scoring_engine =
  productConfigs :: "string \<rightharpoonup> scoring_rules"

definition getScoringRules ::
  "scoring_engine \<Rightarrow> db \<Rightarrow> string \<Rightarrow> scoring_rules \<times> scoring_engine" where
  "getScoringRules eng d productId =
     (case productConfigs eng productId of
        Some cached \<Rightarrow> (cached, eng)
      | None \<Rightarrow>
          let rules = (case product_configs d productId of
                         None \<Rightarrow> defaultScoringRules
                       | Some productRules \<Rightarrow> mergeRules defaultScoringRules productRules) in
          (rules, eng\<lparr>productConfigs := (productConfigs eng)(productId \<mapsto> rules)\<rparr>))"

definition calculateEventScore :: "event \<Rightarrow> scoring_rules \<Rightarrow> jsnum" where
  "calculateEventScore e rules =
     (let baseScore =
            (if event_type e = ''login'' then Num (login_points rules)
             else if event_type e = ''email_open'' then Num (email_open_points rules)
             else if event_type e = ''email_click'' then Num (email_click_points rules)
             else if event_type e = ''whatsapp_reply'' then Num (whatsapp_reply_points rules)
             else if event_type e = ''chatbot_interaction''
               then Num (chatbot_interaction_points rules)
             else (case score_impact e of None \<Rightarrow> Num 0 | Some n \<Rightarrow> Num (of_int n)));
          baseScore' =
            (if channel e = ''email''
             then jmul baseScore (Num (email_engagement_multiplier rules))
             else baseScore)
      in Math_round baseScore')"

text \<open>
  \<^verbatim>\<open>(now - eventTime) / (1000 * 60 * 60)\<close>; time values are integers of at most
  8.64e15 in size, which doubles hold exactly.
\<close>

definition hoursAgo :: "int \<Rightarrow> int \<Rightarrow> jsnum" where
  "hoursAgo now eventTime =
     jdiv (jsub (Num (of_int now)) (Num (of_int eventTime))) (of_int msPerHour)"

definition applyTimeDecay ::
  "math_pow \<Rightarrow> int \<Rightarrow> jsnum \<Rightarrow> int \<Rightarrow> scoring_rules \<Rightarrow> jsnum" where
  "applyTimeDecay pw now eventScore eventTimestamp rules =
     (let h = hoursAgo now eventTimestamp in
      if jle h (Num (decay_start_hours rules)) then eventScore
      else
        let daysOld = Math_floor (jdiv h 24);
            decayFactor = pw (Num (time_decay_factor rules)) daysOld
        in Math_round (jmul eventScore decayFactor))"

text \<open>
  The calendar day of a timestamp (\<^verbatim>\<open>setHours(0, 0, 0, 0)\<close>), for a server whose
  local time is UTC; \<^verbatim>\<open>setDate(getDate() - 1)\<close> is then the day before.
\<close>

definition dayOf :: "int \<Rightarrow> int" where
  "dayOf t = t div (24 * msPerHour)"

fun consecutiveLoop :: "nat \<Rightarrow> int list \<Rightarrow> int \<Rightarrow> nat \<Rightarrow> nat" where
  "consecutiveLoop 0 days checkDate consecutiveDays = consecutiveDays"
| "consecutiveLoop (Suc i) days checkDate consecutiveDays =
     (if checkDate \<in> set days
      then consecutiveLoop i days (checkDate - 1) (consecutiveDays + 1)
      else consecutiveDays)"

definition calculateConsecutiveDays :: "event \<Rightarrow> event list \<Rightarrow> nat" where
  "calculateConsecutiveDays currentEvent eventHistory =
     consecutiveLoop 30 (map (\<lambda>e. dayOf (timestamp e)) eventHistory)
       (dayOf (timestamp currentEvent) - 1) 1"

definition isHighValue :: "event \<Rightarrow> bool" where
  "isHighValue e = (case metadata e of None \<Rightarrow> False | Some m \<Rightarrow> high_value_action m)"

definition previousSameTypeEvents :: "event \<Rightarrow> event list \<Rightarrow> event list" where
  "previousSameTypeEvents e eventHistory =
     filter (\<lambda>h. event_type h = event_type e \<and> timestamp h < timestamp e) eventHistory"

definition sameTypeCount :: "event \<Rightarrow> event list \<Rightarrow> nat" where
  "sameTypeCount e eventHistory =
     length (filter (\<lambda>h. event_type h = event_type e) eventHistory)"

text \<open>
  \<^verbatim>\<open>bonusMultiplier\<close> of \<^verbatim>\<open>applyEngagementBonuses\<close> after its three \<^verbatim>\<open>+=\<close>
  statements (high value, first time, consecutive days) ...
\<close>

definition bonusBeforeDecay :: "event \<Rightarrow> event list \<Rightarrow> scoring_rules \<Rightarrow> jsnum" where
  "bonusBeforeDecay e eventHistory rules =
     (let m0 = Num 1;
          m1 = (if isHighValue e then jadd m0 (Num (high_value_action_bonus rules)) else m0);
          m2 = (if previousSameTypeEvents e eventHistory = []
                then jadd m1 (jsub (Num (first_time_bonus rules)) (Num 1)) else m1);
          consecutiveDays = calculateConsecutiveDays e eventHistory;
          m3 = (if consecutiveDays > 1
                then jadd m2
                       (Math_min (jmul (Num (of_nat consecutiveDays))
                                       (Num (consecutive_days_bonus rules)))
                                 (Num 1))
                else m2)
      in m3)"

text \<open>... and after the \<^verbatim>\<open>*=\<close> of the repeat engagement decay.\<close>

definition bonusMultiplier ::
  "math_pow \<Rightarrow> event \<Rightarrow> event list \<Rightarrow> scoring_rules \<Rightarrow> jsnum" where
  "bonusMultiplier pw e eventHistory rules =
     (let m = bonusBeforeDecay e eventHistory rules;
          n = sameTypeCount e eventHistory
      in if n > 1
         then jmul m (pw (Num (repeat_engagement_decay rules)) (Num (of_nat n - 1)))
         else m)"

definition applyEngagementBonuses ::
  "math_pow \<Rightarrow> jsnum \<Rightarrow> event \<Rightarrow> event list \<Rightarrow> scoring_rules \<Rightarrow> jsnum" where
  "applyEngagementBonuses pw eventScore e eventHistory rules =
     Math_round (jmul eventScore (bonusMultiplier pw e eventHistory rules))"

record score_entry =
  se_event_id :: string
  se_base :: jsnum
  se_decayed :: jsnum
  se_final :: jsnum

text \<open>
  The loop of \<^verbatim>\<open>calculateLeadScore\<close>: \<open>eventHistory\<close> is \<^verbatim>\<open>events.slice(0, i)\<close>,
  the events before the current one.
\<close>

fun scoreEvents ::
  "math_pow \<Rightarrow> int \<Rightarrow> scoring_rules \<Rightarrow> event list \<Rightarrow> event list \<Rightarrow> score_entry list" where
  "scoreEvents pw now rules eventHistory [] = []"
| "scoreEvents pw now rules eventHistory (e # rest) =
     (let baseScore = calculateEventScore e rules;
          decayedScore = applyTimeDecay pw now baseScore (timestamp e) rules;
          finalScore = applyEngagementBonuses pw decayedScore e eventHistory rules
      in \<lparr>se_event_id = event_id e, se_base = baseScore, se_decayed = decayedScore,
          se_final = finalScore\<rparr>
         # scoreEvents pw now rules (eventHistory @ [e]) rest)"

record score_breakdown =
  base_scores :: "(string \<times> jsnum) list"
  time_decay_applied :: "(string \<times> jsnum) list"
  bonus_applied :: "(string \<times> jsnum) list"
  final_scores :: "(string \<times> jsnum) list"
  recent_activity_bonus :: "jsnum option"

record score_result =
  total_score :: jsnum
  event_count :: nat
  recent_events :: nat
  scoring_rules_used :: scoring_rules
  breakdown :: score_breakdown
  calculated_at :: int

text \<open>
  The query of \<^verbatim>\<open>calculateLeadScore\<close> selects the lead's rows from the cutoff on and
  asks for them \<^verbatim>\<open>ORDER BY timestamp ASC\<close>. The order among rows of equal timestamp
  is the store's choice: \<open>ord\<close> is the arrangement the store applies to the selected
  rows, and \<open>ascending ord rows\<close> says that on \<open>rows\<close> it answers the query.
\<close>

type_synonym row_order = "event list \<Rightarrow> event list"

definition windowRows :: "db \<Rightarrow> string \<Rightarrow> int \<Rightarrow> event list" where
  "windowRows d leadId cutoffTime =
     filter (\<lambda>e. ev_lead_id e = leadId \<and> timestamp e \<ge> cutoffTime) (engagement_events d)"

definition ascending :: "row_order \<Rightarrow> event list \<Rightarrow> bool" where
  "ascending ord rows =
     (mset (ord rows) = mset rows \<and> sorted (map timestamp (ord rows)))"

definition fetchWindowEvents :: "row_order \<Rightarrow> db \<Rightarrow> string \<Rightarrow> int \<Rightarrow> event list" where
  "fetchWindowEvents ord d leadId cutoffTime = ord (windowRows d leadId cutoffTime)"

text \<open>
  \<^verbatim>\<open>new Date(Date.now() - (scoringRules.engagement_window * 60 * 60 * 1000))\<close>
\<close>

definition cutoffTime :: "int \<Rightarrow> scoring_rules \<Rightarrow> int option" where
  "cutoffTime now rules =
     dateOf (jsub (Num (of_int now))
       (jmul (jmul (jmul (Num (engagement_window rules)) (Num 60)) (Num 60)) (Num 1000)))"

definition scoreFetched ::
  "math_pow \<Rightarrow> int \<Rightarrow> scoring_rules \<Rightarrow> event list \<Rightarrow> score_result" where
  "scoreFetched pw now rules events =
     (let entries = scoreEvents pw now rules [] events;
          totalScore = foldl jadd (Num 0) (map se_final entries);
          recentEvents =
            filter (\<lambda>e. jle (hoursAgo now (timestamp e)) (Num (recent_activity_window rules)))
              events;
          recentActivityBonus =
            (if length recentEvents > 0
             then Some (Math_min (jmul (Num (of_nat (length recentEvents))) (Num 5)) (Num 50))
             else None);
          totalScore' = (case recentActivityBonus of None \<Rightarrow> totalScore
                         | Some b \<Rightarrow> jadd totalScore b)
      in \<lparr>total_score = Math_max (Num 0) (Math_round totalScore'),
          event_count = length events,
          recent_events = length recentEvents,
          scoring_rules_used = rules,
          breakdown =
            \<lparr>base_scores = map (\<lambda>s. (se_event_id s, se_base s)) entries,
             time_decay_applied = map (\<lambda>s. (se_event_id s, se_decayed s)) entries,
             bonus_applied = map (\<lambda>s. (se_event_id s, se_final s)) entries,
             final_scores = map (\<lambda>s. (se_event_id s, se_final s)) entries,
             recent_activity_bonus = recentActivityBonus\<rparr>,
          calculated_at = now\<rparr>)"

text \<open>
  \<^verbatim>\<open>calculateLeadScore\<close>. With an invalid cutoff date the query is refused and the
  call throws: the result is \<open>None\<close>.
\<close>

definition calculateLeadScore ::
  "math_pow \<Rightarrow> row_order \<Rightarrow> scoring_engine \<Rightarrow> db \<Rightarrow> int \<Rightarrow> string \<Rightarrow> string
     \<Rightarrow> score_result option \<times> scoring_engine" where
  "calculateLeadScore pw ord eng d now leadId productId =
     (case getScoringRules eng d productId of
        (rules, eng') \<Rightarrow>
          (case cutoffTime now rules of
             None \<Rightarrow> (None, eng')
           | Some cutoff \<Rightarrow>
               (Some (scoreFetched pw now rules (fetchWindowEvents ord d leadId cutoff)),
                eng')))"

definition getRecommendedStage :: "rat \<Rightarrow> scoring_rules \<Rightarrow> string" where
  "getRecommendedStage score rules =
     (if score \<ge> customer_threshold rules then ''Customer''
      else if score \<ge> qualified_lead_threshold rules then ''Qualified_Lead''
      else if score \<ge> engaged_lead_threshold rules then ''Engaged_Lead''
      else ''User'')"

text \<open>
  The funnel order of the stages, as the \<^verbatim>\<open>ORDER BY CASE l.stage\<close> of
  \<^verbatim>\<open>getScoringAnalytics\<close> numbers them.
\<close>

definition stageOrder :: "string \<Rightarrow> nat option" where
  "stageOrder s =
     (if s = ''User'' then Some 1
      else if s = ''Engaged_Lead'' then Some 2
      else if s = ''Qualified_Lead'' then Some 3
      else if s = ''Customer'' then Some 4
      else None)"

section \<open>Example data\<close>

definition exNow :: int where
  "exNow = 3600000000"

definition exLogin :: "string \<Rightarrow> int \<Rightarrow> event" where
  "exLogin eid t =
     \<lparr>event_id = eid, ev_lead_id = ''lead-1'', event_type = ''login'', channel = ''product'',
      timestamp = t, metadata = None, score_impact = Some 10\<rparr>"

definition exDb :: db where
  "exDb =
     \<lparr>leads = [''lead-1'' \<mapsto> \<lparr>stage = ''User'', engagement_score = 60, product_id = ''p'',
                 updated_at = 0\<rparr>,
               ''lead-2'' \<mapsto> \<lparr>stage = ''User'', engagement_score = 0, product_id = ''p'',
                 updated_at = 0\<rparr>],
      engagement_events =
        [exLogin ''e1'' 3599000000, exLogin ''e2'' 3599100000, exLogin ''e3'' 3599200000],
      stage_transitions = [],
      product_configs = Map.empty\<rparr>"

definition exMeta :: transition_metadata where
  "exMeta = \<lparr>md_caller = [], md_evaluation = None, md_auto_progression = False,
             md_forced_transition = False\<rparr>"

definition exCustomerDb :: db where
  "exCustomerDb =
     \<lparr>leads = [''lead-9'' \<mapsto> \<lparr>stage = ''Customer'', engagement_score = 400,
                 product_id = ''p'', updated_at = 0\<rparr>],
      engagement_events = [], stage_transitions = [], product_configs = Map.empty\<rparr>"

definition exEngine :: scoring_engine where
  "exEngine = \<lparr>productConfigs = Map.empty\<rparr>"

definition exSingleDb :: db where
  "exSingleDb =
     \<lparr>leads = [''lead-1'' \<mapsto> \<lparr>stage = ''User'', engagement_score = 0, product_id = ''p'',
                 updated_at = 0\<rparr>],
      engagement_events = [exLogin ''e1'' 3599000000],
      stage_transitions = [],
      product_configs = Map.empty\<rparr>"

definition exHighValue :: event where
  "exHighValue =
     \<lparr>event_id = ''e1'', ev_lead_id = ''lead-1'', event_type = ''login'', channel = ''product'',
      timestamp = 3599000000,
      metadata = Some \<lparr>high_value_action = True, conversion = False\<rparr>,
      score_impact = Some 10\<rparr>"

text \<open>
  Two stores that both answer \<^verbatim>\<open>ORDER BY timestamp ASC\<close>: one keeps rows of equal
  timestamp in table order, the other in reverse table order.
\<close>

definition tableOrder :: row_order where
  "tableOrder rows = sort_key timestamp rows"

definition reverseTableOrder :: row_order where
  "reverseTableOrder rows = sort_key timestamp (rev rows)"

definition exHighLogin :: "string \<Rightarrow> int \<Rightarrow> event" where
  "exHighLogin eid t =
     \<lparr>event_id = eid, ev_lead_id = ''lead-1'', event_type = ''login'', channel = ''product'',
      timestamp = t, metadata = Some \<lparr>high_value_action = True, conversion = False\<rparr>,
      score_impact = Some 10\<rparr>"

text \<open>Three logins of one lead at the same instant, the last of high value.\<close>

definition exTieDb :: db where
  "exTieDb =
     \<lparr>leads = [''lead-1'' \<mapsto> \<lparr>stage = ''User'', engagement_score = 0, product_id = ''p'',
                 updated_at = 0\<rparr>],
      engagement_events =
        [exLogin ''e1'' 3599000000, exLogin ''e2'' 3599000000,
         exHighLogin ''e3'' 3599000000],
      stage_transitions = [],
      product_configs = Map.empty\<rparr>"

text \<open>
  A product whose rules set \<^verbatim>\<open>login_points\<close> to \<open>2 ^ 1023\<close> (about 8.99e307, a
  finite double) and \<^verbatim>\<open>first_time_bonus\<close> to 3.
\<close>

definition exHugePoints :: rat where
  "exHugePoints = 2 ^ 1023"

definition exHugeRules :: scoring_rules where
  "exHugeRules = defaultScoringRules\<lparr>login_points := exHugePoints, first_time_bonus := 3\<rparr>"

definition exHugeDb :: db where
  "exHugeDb =
     \<lparr>leads = [''lead-1'' \<mapsto> \<lparr>stage = ''User'', engagement_score = 0, product_id = ''p'',
                 updated_at = 0\<rparr>],
      engagement_events = [exLogin ''e1'' 3599000000],
      stage_transitions = [],
      product_configs = [''p'' \<mapsto> [(''login_points'', exHugePoints), (''first_time_bonus'', 3)]]\<rparr>"

text \<open>Events of another type on each of the five days before \<open>exHighValue\<close>.\<close>

definition exOpen :: "string \<Rightarrow> int \<Rightarrow> event" where
  "exOpen eid t =
     \<lparr>event_id = eid, ev_lead_id = ''lead-1'', event_type = ''email_open'', channel = ''email'',
      timestamp = t, metadata = None, score_impact = Some 5\<rparr>"

definition exStreak :: "event list" where
  "exStreak =
     [exOpen ''o5'' 3167000000, exOpen ''o4'' 3253400000, exOpen ''o3'' 3339800000,
      exOpen ''o2'' 3426200000, exOpen ''o1'' 3512600000]"

text \<open>The default rules with \<^verbatim>\<open>repeat_engagement_decay: 0.7\<close>.\<close>

definition exDecayRules :: scoring_rules where
  "exDecayRules = defaultScoringRules\<lparr>repeat_engagement_decay := dbl (7 / 10)\<rparr>"

section \<open>Properties of the stage transition engine\<close>

lemma validTransitions_no_loop:
  "validTransitions k = Some xs \<Longrightarrow> new \<in> set xs \<Longrightarrow> k \<noteq> new"
  by (auto simp: validTransitions_def split: if_splits)

lemma isValidTransition_True_neq:
  "isValidTransition old new = Inr True \<Longrightarrow> old \<noteq> new"
  by (auto simp: isValidTransition_def js_get_def dest: validTransitions_no_loop
           split: option.splits if_splits)

lemma executeTransition_cases:
  "findById d leadId = Some ld \<Longrightarrow>
     executeTransition d now leadId new reason md =
       (case isValidTransition (stage ld) new of
          Inl e \<Rightarrow> (Inl e, d)
        | Inr valid \<Rightarrow>
            if valid then
              (Inr \<lparr>success = True, tr_leadId = leadId, oldStage = stage ld, newStage = new,
                    tr_reason = reason, forced = False, tr_timestamp = now\<rparr>,
               writeTransition d now leadId (stage ld) new reason md)
            else (Inl (InvalidTransition (stage ld) new), d))"
  by (simp add: executeTransition_def Let_def split: sum.splits)

lemma executeTransition_success:
  assumes "executeTransition d now leadId new reason md = (Inr res, d')"
  shows "\<exists>ld. findById d leadId = Some ld \<and> isValidTransition (stage ld) new = Inr True
           \<and> res = \<lparr>success = True, tr_leadId = leadId, oldStage = stage ld, newStage = new,
                    tr_reason = reason, forced = False, tr_timestamp = now\<rparr>
           \<and> d' = writeTransition d now leadId (stage ld) new reason md"
  using assms
  by (auto simp: executeTransition_def Let_def split: option.splits sum.splits if_splits)

lemma executeTransition_failure:
  "executeTransition d now leadId new reason md = (Inl e, d') \<Longrightarrow> d' = d"
  by (auto simp: executeTransition_def Let_def split: option.splits sum.splits if_splits)

lemma stage_transitions_write:
  "stage_transitions (writeTransition d now leadId old new reason md) =
     stage_transitions d @
       [\<lparr>st_lead_id = leadId, from_stage = old, to_stage = new, trigger_reason = reason,
         st_metadata = md, transition_at = now\<rparr>]"
  by (simp add: writeTransition_def)

lemma leads_write:
  "findById d leadId = Some ld \<Longrightarrow>
     leads (writeTransition d now leadId old new reason md) =
       (leads d)(leadId \<mapsto> ld\<lparr>stage := new, updated_at := now\<rparr>)"
  by (auto simp: writeTransition_def findById_def split: option.splits)

lemma exDb_execute:
  "executeTransition exDb exNow ''lead-1'' ''Engaged_Lead'' reason md =
     (Inr \<lparr>success = True, tr_leadId = ''lead-1'', oldStage = ''User'',
            newStage = ''Engaged_Lead'', tr_reason = reason, forced = False,
            tr_timestamp = exNow\<rparr>,
      writeTransition exDb exNow ''lead-1'' ''User'' ''Engaged_Lead'' reason md)"
  by (simp add: executeTransition_def findById_def exDb_def isValidTransition_def js_get_def
        validTransitions_def Let_def)

lemma exDb_evaluate:
  "evaluateProgression exDb exNow ''lead-1'' None =
     Inr (Progression True ''Engaged_Lead'' ''User''
       \<lparr>met = True,
        details = \<lparr>d_engagement_score = Some (50, 60, True),
          d_event_count = Some (3, 3, True),
          d_time_window = Some (168, 3, 2995200000, True),
          d_conversion_event = None, d_required_event_types = None\<rparr>,
        failedConditions = []\<rparr> ''lead-1'')"
  by (simp add: evaluateProgression_def findById_def exDb_def getLeadEvents_def exLogin_def
        defaultRules_def js_get_def evaluateConditions_def checkScore_def
        checkEventCount_def checkTimeWindow_def checkConversion_def checkEventTypes_def
        emptyEvaluation_def failCondition_def exNow_def timeClip_def Let_def)

lemma exDb_evaluate2:
  "evaluateProgression exDb exNow ''lead-2'' None =
     Inr (Progression False ''Engaged_Lead'' ''User''
       \<lparr>met = False,
        details = \<lparr>d_engagement_score = Some (50, 0, False),
          d_event_count = Some (3, 0, False),
          d_time_window = Some (168, 0, 2995200000, False),
          d_conversion_event = None, d_required_event_types = None\<rparr>,
        failedConditions = [''min_engagement_score'', ''min_events'', ''time_window_hours'']\<rparr>
       ''lead-2'')"
  by (simp add: evaluateProgression_def findById_def exDb_def getLeadEvents_def exLogin_def
        defaultRules_def js_get_def evaluateConditions_def checkScore_def
        checkEventCount_def checkTimeWindow_def checkConversion_def checkEventTypes_def
        emptyEvaluation_def failCondition_def exNow_def timeClip_def Let_def)

lemma exDb_ghost: "findById exDb ''ghost'' = None"
  by (simp add: findById_def exDb_def)

lemma autoProgressLead_progressed:
  assumes "autoProgressLead d now leadId pc = (Inr (Progressed res ev), d')"
  shows "\<exists>target. executeTransition d now leadId target
           ''Auto-progression based on engagement criteria''
           \<lparr>md_caller = [], md_evaluation = Some ev, md_auto_progression = True,
            md_forced_transition = False\<rparr> = (Inr res, d')"
  using assms
  by (auto simp: autoProgressLead_def split: sum.splits progression.splits if_splits prod.splits)

lemma autoProgressLead_unchanged:
  "autoProgressLead d now leadId pc = (Inr (NotProgressed why ev), d') \<Longrightarrow> d' = d"
  "autoProgressLead d now leadId pc = (Inl e, d') \<Longrightarrow> d' = d"
  by (auto simp: autoProgressLead_def
           split: sum.splits progression.splits if_splits prod.splits
           dest: executeTransition_failure)

text \<open>
  Claim C1. For an existing lead in stage \<open>stage ld\<close> and any target stage,
  \<^verbatim>\<open>executeTransition\<close> returns a result exactly when \<^verbatim>\<open>isValidTransition\<close>
  returns \<^verbatim>\<open>true\<close> for the pair; when it returns \<^verbatim>\<open>false\<close> the call is rejected
  with the invalid-transition error and the store (the lead's stage and the audit rows)
  is the one before the call.
\<close>

theorem executeTransition_iff_valid:
  assumes "findById d leadId = Some ld"
  shows "((\<exists>res d'. executeTransition d now leadId new reason md = (Inr res, d'))
            \<longleftrightarrow> isValidTransition (stage ld) new = Inr True)
         \<and> (isValidTransition (stage ld) new = Inr False \<longrightarrow>
              executeTransition d now leadId new reason md
                = (Inl (InvalidTransition (stage ld) new), d))"
  using assms by (auto simp: executeTransition_cases split: sum.splits)

theorem executeTransition_iff_valid_witness:
  "findById exDb ''lead-1'' = Some \<lparr>stage = ''User'', engagement_score = 60, product_id = ''p'',
                 updated_at = 0\<rparr>
   \<and> isValidTransition ''User'' ''Customer'' = Inr False
   \<and> executeTransition exDb exNow ''lead-1'' ''Customer'' ''why'' exMeta
       = (Inl (InvalidTransition ''User'' ''Customer''), exDb)"
proof -
  have l: "findById exDb ''lead-1'' = Some \<lparr>stage = ''User'', engagement_score = 60, product_id = ''p'',
                 updated_at = 0\<rparr>"
    by (simp add: findById_def exDb_def)
  have v: "isValidTransition ''User'' ''Customer'' = Inr False"
    by (simp add: isValidTransition_def js_get_def validTransitions_def)
  from executeTransition_iff_valid [OF l, of exNow "''Customer''" "''why''" exMeta] l v
  show ?thesis by simp
qed

text \<open>
  Claim C7, as amended. A successful \<^verbatim>\<open>executeTransition\<close> and a progressing
  \<^verbatim>\<open>autoProgressLead\<close> each append exactly one audit row, and its from-stage differs
  from its to-stage. A successful \<^verbatim>\<open>forceTransition\<close> appends exactly one audit row,
  tagged as forced, from the lead's current stage to the requested stage, whatever that
  is. Every call that fails or does not progress leaves the store as it was.
\<close>

theorem audit_records_amended:
  "(executeTransition d now leadId new reason md = (Inr res, d') \<longrightarrow>
      stage_transitions d' = stage_transitions d @
        [\<lparr>st_lead_id = leadId, from_stage = oldStage res, to_stage = new,
          trigger_reason = reason, st_metadata = md, transition_at = now\<rparr>]
      \<and> oldStage res \<noteq> new)
   \<and> (autoProgressLead d now leadId pc = (Inr (Progressed res ev), d') \<longrightarrow>
      stage_transitions d' = stage_transitions d @
        [\<lparr>st_lead_id = leadId, from_stage = oldStage res, to_stage = newStage res,
          trigger_reason = ''Auto-progression based on engagement criteria'',
          st_metadata = \<lparr>md_caller = [], md_evaluation = Some ev,
            md_auto_progression = True, md_forced_transition = False\<rparr>,
          transition_at = now\<rparr>]
      \<and> oldStage res \<noteq> newStage res)
   \<and> (forceTransition d now leadId new reason md = (Inr res, d') \<longrightarrow>
      stage_transitions d' = stage_transitions d @
        [\<lparr>st_lead_id = leadId, from_stage = oldStage res, to_stage = new,
          trigger_reason = reason, st_metadata = md\<lparr>md_forced_transition := True\<rparr>,
          transition_at = now\<rparr>]
      \<and> findById d leadId \<noteq> None \<and> Some (oldStage res) = map_option stage (findById d leadId))
   \<and> (executeTransition d now leadId new reason md = (Inl e, d') \<longrightarrow> d' = d)
   \<and> (autoProgressLead d now leadId pc = (Inl e, d') \<longrightarrow> d' = d)
   \<and> (autoProgressLead d now leadId pc = (Inr (NotProgressed why evo), d') \<longrightarrow> d' = d)
   \<and> (forceTransition d now leadId new reason md = (Inl e, d') \<longrightarrow> d' = d)"
proof (intro conjI impI)
  assume a: "executeTransition d now leadId new reason md = (Inr res, d')"
  from executeTransition_success [OF a] isValidTransition_True_neq
  show "stage_transitions d' = stage_transitions d @
        [\<lparr>st_lead_id = leadId, from_stage = oldStage res, to_stage = new,
          trigger_reason = reason, st_metadata = md, transition_at = now\<rparr>]"
    and "oldStage res \<noteq> new"
    by (auto simp: stage_transitions_write)
next
  assume a: "autoProgressLead d now leadId pc = (Inr (Progressed res ev), d')"
  from autoProgressLead_progressed [OF a] obtain target where
    ex: "executeTransition d now leadId target
           ''Auto-progression based on engagement criteria''
           \<lparr>md_caller = [], md_evaluation = Some ev, md_auto_progression = True,
            md_forced_transition = False\<rparr> = (Inr res, d')"
    by blast
  from executeTransition_success [OF ex] isValidTransition_True_neq
  show "stage_transitions d' = stage_transitions d @
        [\<lparr>st_lead_id = leadId, from_stage = oldStage res, to_stage = newStage res,
          trigger_reason = ''Auto-progression based on engagement criteria'',
          st_metadata = \<lparr>md_caller = [], md_evaluation = Some ev,
            md_auto_progression = True, md_forced_transition = False\<rparr>,
          transition_at = now\<rparr>]"
    and "oldStage res \<noteq> newStage res"
    by (auto simp: stage_transitions_write)
next
  assume a: "forceTransition d now leadId new reason md = (Inr res, d')"
  then show "stage_transitions d' = stage_transitions d @
        [\<lparr>st_lead_id = leadId, from_stage = oldStage res, to_stage = new,
          trigger_reason = reason, st_metadata = md\<lparr>md_forced_transition := True\<rparr>,
          transition_at = now\<rparr>]"
    and "findById d leadId \<noteq> None"
    and "Some (oldStage res) = map_option stage (findById d leadId)"
    by (auto simp: forceTransition_def Let_def stage_transitions_write split: option.splits)
next
  assume "executeTransition d now leadId new reason md = (Inl e, d')"
  then show "d' = d" by (rule executeTransition_failure)
next
  assume "autoProgressLead d now leadId pc = (Inl e, d')"
  then show "d' = d" by (rule autoProgressLead_unchanged)
next
  assume "autoProgressLead d now leadId pc = (Inr (NotProgressed why evo), d')"
  then show "d' = d" by (rule autoProgressLead_unchanged)
next
  assume "forceTransition d now leadId new reason md = (Inl e, d')"
  then show "d' = d"
    by (auto simp: forceTransition_def Let_def split: option.splits)
qed

theorem audit_records_amended_witness:
  "stage_transitions (snd (executeTransition exDb exNow ''lead-1'' ''Engaged_Lead'' ''why'' exMeta))
     = [\<lparr>st_lead_id = ''lead-1'', from_stage = ''User'', to_stage = ''Engaged_Lead'',
         trigger_reason = ''why'', st_metadata = exMeta, transition_at = exNow\<rparr>]
   \<and> (\<exists>r. stage_transitions (snd (autoProgressLead exDb exNow ''lead-1'' None)) = [r]
          \<and> from_stage r = ''User'' \<and> to_stage r = ''Engaged_Lead'')
   \<and> stage_transitions (snd (forceTransition exDb exNow ''lead-1'' ''Customer'' ''manual'' exMeta))
     = [\<lparr>st_lead_id = ''lead-1'', from_stage = ''User'', to_stage = ''Customer'',
         trigger_reason = ''manual'', st_metadata = exMeta\<lparr>md_forced_transition := True\<rparr>,
         transition_at = exNow\<rparr>]
   \<and> snd (executeTransition exDb exNow ''lead-1'' ''Customer'' ''why'' exMeta) = exDb
   \<and> snd (autoProgressLead exDb exNow ''ghost'' None) = exDb
   \<and> snd (autoProgressLead exDb exNow ''lead-2'' None) = exDb
   \<and> snd (forceTransition exDb exNow ''ghost'' ''Customer'' ''manual'' exMeta) = exDb"
proof -
  have empty: "stage_transitions exDb = []"
    by (simp add: exDb_def)
  obtain r1 d1 where
    e1: "executeTransition exDb exNow ''lead-1'' ''Engaged_Lead'' ''why'' exMeta = (Inr r1, d1)"
    and o1: "oldStage r1 = ''User''"
    by (simp add: exDb_execute)
  obtain r2 ev2 d2 where
    e2: "autoProgressLead exDb exNow ''lead-1'' None = (Inr (Progressed r2 ev2), d2)"
    and o2: "oldStage r2 = ''User''" and n2: "newStage r2 = ''Engaged_Lead''"
    by (simp add: autoProgressLead_def exDb_evaluate exDb_execute)
  obtain r3 d3 where
    e3: "forceTransition exDb exNow ''lead-1'' ''Customer'' ''manual'' exMeta = (Inr r3, d3)"
    and o3: "oldStage r3 = ''User''"
    by (simp add: forceTransition_def findById_def exDb_def Let_def)
  obtain x4 d4 where
    e4: "executeTransition exDb exNow ''lead-1'' ''Customer'' ''why'' exMeta = (Inl x4, d4)"
    by (simp add: executeTransition_def findById_def exDb_def isValidTransition_def js_get_def
          validTransitions_def Let_def)
  obtain x5 d5 where
    e5: "autoProgressLead exDb exNow ''ghost'' None = (Inl x5, d5)"
    by (simp add: autoProgressLead_def evaluateProgression_def exDb_ghost)
  obtain w6 v6 d6 where
    e6: "autoProgressLead exDb exNow ''lead-2'' None = (Inr (NotProgressed w6 v6), d6)"
    by (simp add: autoProgressLead_def exDb_evaluate2)
  obtain x7 d7 where
    e7: "forceTransition exDb exNow ''ghost'' ''Customer'' ''manual'' exMeta = (Inl x7, d7)"
    by (simp add: forceTransition_def exDb_ghost)
  note t1 = audit_records_amended
    [of exDb exNow "''lead-1''" "''Engaged_Lead''" "''why''" exMeta r1 d1]
  note t2 = audit_records_amended
    [of exDb exNow "''lead-1''" _ _ _ r2 d2 None ev2]
  note t3 = audit_records_amended
    [of exDb exNow "''lead-1''" "''Customer''" "''manual''" exMeta r3 d3]
  note t4 = audit_records_amended
    [of exDb exNow "''lead-1''" "''Customer''" "''why''" exMeta _ d4 _ _ x4]
  note t5 = audit_records_amended
    [of exDb exNow "''ghost''" _ _ _ _ d5 None _ x5]
  note t6 = audit_records_amended
    [of exDb exNow "''lead-2''" _ _ _ _ d6 None _ _ w6 v6]
  note t7 = audit_records_amended
    [of exDb exNow "''ghost''" "''Customer''" "''manual''" exMeta _ d7 _ _ x7]
  from t1 e1 o1 empty have c1: "stage_transitions d1
     = [\<lparr>st_lead_id = ''lead-1'', from_stage = ''User'', to_stage = ''Engaged_Lead'',
         trigger_reason = ''why'', st_metadata = exMeta, transition_at = exNow\<rparr>]"
    by simp
  from t2 e2 o2 n2 empty have c2: "\<exists>r. stage_transitions d2 = [r]
          \<and> from_stage r = ''User'' \<and> to_stage r = ''Engaged_Lead''"
    by simp
  from t3 e3 o3 empty have c3: "stage_transitions d3
     = [\<lparr>st_lead_id = ''lead-1'', from_stage = ''User'', to_stage = ''Customer'',
         trigger_reason = ''manual'', st_metadata = exMeta\<lparr>md_forced_transition := True\<rparr>,
         transition_at = exNow\<rparr>]"
    by simp
  from t4 e4 have c4: "d4 = exDb" by simp
  from t5 e5 have c5: "d5 = exDb" by simp
  from t6 e6 have c6: "d6 = exDb" by simp
  from t7 e7 have c7: "d7 = exDb" by simp
  from c1 c2 c3 c4 c5 c6 c7 e1 e2 e3 e4 e5 e6 e7 show ?thesis by simp
qed

text \<open>
  \<^verbatim>\<open>forceTransition\<close> to the stage the lead is already in succeeds and writes an
  audit row whose from-stage equals its to-stage.
\<close>

theorem forceTransition_same_stage_counterexample:
  "fst (forceTransition exDb exNow ''lead-1'' ''User'' ''manual'' exMeta)
     = Inr \<lparr>success = True, tr_leadId = ''lead-1'', oldStage = ''User'', newStage = ''User'',
            tr_reason = ''manual'', forced = True, tr_timestamp = exNow\<rparr>
   \<and> stage_transitions (snd (forceTransition exDb exNow ''lead-1'' ''User'' ''manual'' exMeta))
     = [\<lparr>st_lead_id = ''lead-1'', from_stage = ''User'', to_stage = ''User'',
          trigger_reason = ''manual'', st_metadata = exMeta\<lparr>md_forced_transition := True\<rparr>,
          transition_at = exNow\<rparr>]"
  by (simp add: forceTransition_def findById_def exDb_def writeTransition_def Let_def)

text \<open>
  Claim C2. \<open>Customer\<close> is terminal: \<^verbatim>\<open>isValidTransition\<close> from it is
  \<^verbatim>\<open>false\<close> for every target, \<^verbatim>\<open>getNextStages\<close> of it is the empty array, and
  \<^verbatim>\<open>executeTransition\<close> on a lead in that stage is rejected for every target with
  the store unchanged.
\<close>

theorem customer_terminal:
  "isValidTransition ''Customer'' s = Inr False
   \<and> getNextStages ''Customer'' = StageArray []
   \<and> (findById d leadId = Some ld \<and> stage ld = ''Customer'' \<longrightarrow>
        executeTransition d now leadId s reason md
          = (Inl (InvalidTransition ''Customer'' s), d))"
proof -
  have v: "isValidTransition ''Customer'' s = Inr False"
    by (simp add: isValidTransition_def js_get_def validTransitions_def)
  moreover have "getNextStages ''Customer'' = StageArray []"
    by (simp add: getNextStages_def js_get_def validTransitions_def)
  moreover have "executeTransition d now leadId s reason md
          = (Inl (InvalidTransition ''Customer'' s), d)"
    if "findById d leadId = Some ld" "stage ld = ''Customer''"
    using that v by (simp add: executeTransition_cases)
  ultimately show ?thesis by blast
qed

theorem customer_terminal_witness:
  "findById exCustomerDb ''lead-9'' = Some \<lparr>stage = ''Customer'', engagement_score = 400,
                 product_id = ''p'', updated_at = 0\<rparr>
   \<and> isValidTransition ''Customer'' ''Qualified_Lead'' = Inr False
   \<and> executeTransition exCustomerDb exNow ''lead-9'' ''Qualified_Lead'' ''regress'' exMeta
       = (Inl (InvalidTransition ''Customer'' ''Qualified_Lead''), exCustomerDb)"
proof -
  have l: "findById exCustomerDb ''lead-9'' = Some \<lparr>stage = ''Customer'', engagement_score = 400,
                 product_id = ''p'', updated_at = 0\<rparr>"
    by (simp add: findById_def exCustomerDb_def)
  from customer_terminal [of "''Qualified_Lead''" exCustomerDb "''lead-9''"
     "\<lparr>stage = ''Customer'', engagement_score = 400, product_id = ''p'', updated_at = 0\<rparr>"
     exNow "''regress''" exMeta] l
  show ?thesis by simp
qed

text \<open>
  A stage name that is neither a key of the table nor a member inherited from
  \<^verbatim>\<open>Object.prototype\<close> is handled by the guard of \<^verbatim>\<open>isValidTransition\<close>.
\<close>

lemma unknown_stage_not_inherited:
  "validTransitions fromStage = None \<Longrightarrow> fromStage \<notin> set objectPrototypeKeys \<Longrightarrow>
     isValidTransition fromStage toStage = Inr False \<and> getNextStages fromStage = StageArray []"
  by (simp add: isValidTransition_def getNextStages_def js_get_def)

text \<open>
  Claim C10 (that \<^verbatim>\<open>isValidTransition\<close> returns \<^verbatim>\<open>false\<close> and
  \<^verbatim>\<open>getNextStages\<close> the empty list for every stage name outside the four, and
  that neither throws) fails at the stage name \<open>constructor\<close>: the table read finds
  the inherited \<^verbatim>\<open>Object\<close> function, which passes the falsy guard, so
  \<^verbatim>\<open>isValidTransition\<close> throws a TypeError at \<^verbatim>\<open>.includes\<close> and
  \<^verbatim>\<open>getNextStages\<close> returns that function instead of a list.
\<close>

theorem inherited_key_throws:
  "isValidTransition ''constructor'' ''User''
     = Inl (TypeError ''this.validTransitions[fromStage].includes is not a function'')
   \<and> getNextStages ''constructor'' = PrototypeMember"
  by (simp add: isValidTransition_def getNextStages_def js_get_def validTransitions_def
        objectPrototypeKeys_def)

section \<open>Properties of batch auto-progression\<close>

lemma entry_leadId:
  "autoProgressLead d now leadId pc = (outcome, d') \<Longrightarrow>
     be_leadId (case outcome of Inr r \<Rightarrow> resultEntry leadId r | Inl e \<Rightarrow> errorEntry leadId e)
       = leadId"
proof (cases outcome)
  case (Inl e)
  then show ?thesis by (simp add: errorEntry_def)
next
  case (Inr r)
  assume a: "autoProgressLead d now leadId pc = (outcome, d')"
  show ?thesis
  proof (cases r)
    case (NotProgressed why ev)
    with Inr show ?thesis by (simp add: resultEntry_def)
  next
    case (Progressed res ev)
    with a Inr autoProgressLead_progressed [of d now leadId pc res ev d']
    obtain target where
      "executeTransition d now leadId target
           ''Auto-progression based on engagement criteria''
           \<lparr>md_caller = [], md_evaluation = Some ev, md_auto_progression = True,
            md_forced_transition = False\<rparr> = (Inr res, d')"
      by auto
    from executeTransition_success [OF this] have "tr_leadId res = leadId" by auto
    with Inr Progressed show ?thesis by (simp add: resultEntry_def)
  qed
qed

lemma batch_ids:
  "map be_leadId (fst (batchAutoProgress d now ids pc)) = ids"
proof (induction ids arbitrary: d)
  case Nil
  then show ?case by simp
next
  case (Cons leadId rest)
  obtain outcome d1 where s: "autoProgressLead d now leadId pc = (outcome, d1)"
    by (cases "autoProgressLead d now leadId pc")
  obtain results d2 where r: "batchAutoProgress d1 now rest pc = (results, d2)"
    by (cases "batchAutoProgress d1 now rest pc")
  from Cons.IH [of d1] r have "map be_leadId results = rest" by simp
  with s r entry_leadId [OF s] show ?case by simp
qed

lemma batch_append:
  "batchAutoProgress d now (xs @ ys) pc =
     (fst (batchAutoProgress d now xs pc)
        @ fst (batchAutoProgress (snd (batchAutoProgress d now xs pc)) now ys pc),
      snd (batchAutoProgress (snd (batchAutoProgress d now xs pc)) now ys pc))"
  by (induction xs arbitrary: d) (auto split: prod.splits)

lemma exDb_auto1:
  "autoProgressLead exDb exNow ''lead-1'' None =
     (Inr (Progressed
        \<lparr>success = True, tr_leadId = ''lead-1'', oldStage = ''User'',
          newStage = ''Engaged_Lead'',
          tr_reason = ''Auto-progression based on engagement criteria'', forced = False,
          tr_timestamp = exNow\<rparr>
        \<lparr>met = True,
         details = \<lparr>d_engagement_score = Some (50, 60, True),
           d_event_count = Some (3, 3, True),
           d_time_window = Some (168, 3, 2995200000, True),
           d_conversion_event = None, d_required_event_types = None\<rparr>,
         failedConditions = []\<rparr>),
      writeTransition exDb exNow ''lead-1'' ''User'' ''Engaged_Lead''
        ''Auto-progression based on engagement criteria''
        \<lparr>md_caller = [],
         md_evaluation = Some
           \<lparr>met = True,
            details = \<lparr>d_engagement_score = Some (50, 60, True),
              d_event_count = Some (3, 3, True),
              d_time_window = Some (168, 3, 2995200000, True),
              d_conversion_event = None, d_required_event_types = None\<rparr>,
            failedConditions = []\<rparr>,
         md_auto_progression = True, md_forced_transition = False\<rparr>)"
  by (simp add: autoProgressLead_def exDb_evaluate exDb_execute)

lemma exDb_auto2:
  "autoProgressLead exDb exNow ''lead-2'' None =
     (Inr (NotProgressed ''Conditions not met''
        (Some \<lparr>met = False,
          details = \<lparr>d_engagement_score = Some (50, 0, False),
            d_event_count = Some (3, 0, False),
            d_time_window = Some (168, 0, 2995200000, False),
            d_conversion_event = None, d_required_event_types = None\<rparr>,
          failedConditions =
            [''min_engagement_score'', ''min_events'', ''time_window_hours'']\<rparr>)),
      exDb)"
  by (simp add: autoProgressLead_def exDb_evaluate2)

lemma exDb_auto_ghost:
  "autoProgressLead exDb exNow ''ghost'' None = (Inl LeadNotFound, exDb)"
  by (simp add: autoProgressLead_def evaluateProgression_def exDb_ghost)

text \<open>
  Claim C8, as amended. \<^verbatim>\<open>batchAutoProgress\<close> returns one entry per input id, in
  input order, each carrying the id at its index; the result ids are free of duplicates
  whenever the input ids are. When processing one lead throws, in the store reached
  when its turn comes, its entry is \<^verbatim>\<open>{leadId, progressed: false, error}\<close> with the
  error's message, and the entries of the leads before and after it are the ones
  their own processing produces.
\<close>

theorem batchAutoProgress_amended:
  "length (fst (batchAutoProgress d now ids pc)) = length ids
   \<and> map be_leadId (fst (batchAutoProgress d now ids pc)) = ids
   \<and> (distinct ids \<longrightarrow> distinct (map be_leadId (fst (batchAutoProgress d now ids pc))))
   \<and> (ids = before @ leadId # after
        \<and> autoProgressLead (snd (batchAutoProgress d now before pc)) now leadId pc = (Inl e, d1)
      \<longrightarrow> fst (batchAutoProgress d now ids pc) =
            fst (batchAutoProgress d now before pc)
            @ \<lparr>be_leadId = leadId, be_progressed = False, be_error = Some (errorMessage e),
                be_result = None\<rparr>
            # fst (batchAutoProgress (snd (batchAutoProgress d now before pc)) now after pc))"
proof -
  have ids: "map be_leadId (fst (batchAutoProgress d now ids pc)) = ids"
    by (rule batch_ids)
  from arg_cong [OF ids, of length]
  have len: "length (fst (batchAutoProgress d now ids pc)) = length ids" by simp
  have iso: "fst (batchAutoProgress d now ids pc) =
            fst (batchAutoProgress d now before pc)
            @ \<lparr>be_leadId = leadId, be_progressed = False, be_error = Some (errorMessage e),
                be_result = None\<rparr>
            # fst (batchAutoProgress (snd (batchAutoProgress d now before pc)) now after pc)"
    if i: "ids = before @ leadId # after"
      and f: "autoProgressLead (snd (batchAutoProgress d now before pc)) now leadId pc = (Inl e, d1)"
  proof -
    from autoProgressLead_unchanged(2) [OF f]
    have "d1 = snd (batchAutoProgress d now before pc)" .
    with f show ?thesis
      unfolding i batch_append by (simp add: errorEntry_def split: prod.splits)
  qed
  from ids len iso show ?thesis by simp
qed

theorem batchAutoProgress_amended_witness:
  "distinct [''lead-2'', ''ghost'', ''lead-1'']
   \<and> map be_leadId (fst (batchAutoProgress exDb exNow [''lead-2'', ''ghost'', ''lead-1''] None))
       = [''lead-2'', ''ghost'', ''lead-1'']
   \<and> distinct (map be_leadId
        (fst (batchAutoProgress exDb exNow [''lead-2'', ''ghost'', ''lead-1''] None)))
   \<and> fst (batchAutoProgress exDb exNow [''lead-2'', ''ghost'', ''lead-1''] None) ! 1
       = \<lparr>be_leadId = ''ghost'', be_progressed = False, be_error = Some ''Lead not found'',
          be_result = None\<rparr>
   \<and> be_progressed (fst (batchAutoProgress exDb exNow [''lead-2'', ''ghost'', ''lead-1''] None) ! 2)"
proof -
  have dist: "distinct [''lead-2'', ''ghost'', ''lead-1'']" by simp
  have split: "[''lead-2'', ''ghost'', ''lead-1''] = [''lead-2''] @ ''ghost'' # [''lead-1'']"
    by simp
  have before: "batchAutoProgress exDb exNow [''lead-2''] None =
     ([resultEntry ''lead-2'' (NotProgressed ''Conditions not met''
        (Some \<lparr>met = False,
          details = \<lparr>d_engagement_score = Some (50, 0, False),
            d_event_count = Some (3, 0, False),
            d_time_window = Some (168, 0, 2995200000, False),
            d_conversion_event = None, d_required_event_types = None\<rparr>,
          failedConditions =
            [''min_engagement_score'', ''min_events'', ''time_window_hours'']\<rparr>))], exDb)"
    by (simp add: exDb_auto2)
  have fails: "autoProgressLead (snd (batchAutoProgress exDb exNow [''lead-2''] None)) exNow
                 ''ghost'' None = (Inl LeadNotFound, exDb)"
    by (simp only: before snd_conv exDb_auto_ghost)
  have after: "be_progressed (hd (fst (batchAutoProgress exDb exNow [''lead-1''] None)))"
    by (simp add: exDb_auto1 resultEntry_def)
  have len: "length (fst (batchAutoProgress exDb exNow [''lead-1''] None)) = 1"
    by (simp add: exDb_auto1)
  from batchAutoProgress_amended
    [of exDb exNow "[''lead-2'', ''ghost'', ''lead-1'']" None "[''lead-2'']" "''ghost''"
        "[''lead-1'']" LeadNotFound exDb]
    dist split fails
  have ids: "map be_leadId
        (fst (batchAutoProgress exDb exNow [''lead-2'', ''ghost'', ''lead-1''] None))
       = [''lead-2'', ''ghost'', ''lead-1'']"
    and d: "distinct (map be_leadId
        (fst (batchAutoProgress exDb exNow [''lead-2'', ''ghost'', ''lead-1''] None)))"
    and iso: "fst (batchAutoProgress exDb exNow [''lead-2'', ''ghost'', ''lead-1''] None) =
       fst (batchAutoProgress exDb exNow [''lead-2''] None)
       @ \<lparr>be_leadId = ''ghost'', be_progressed = False,
           be_error = Some (errorMessage LeadNotFound), be_result = None\<rparr>
       # fst (batchAutoProgress (snd (batchAutoProgress exDb exNow [''lead-2''] None)) exNow
              [''lead-1''] None)"
    by blast+
  from iso before have shape:
    "fst (batchAutoProgress exDb exNow [''lead-2'', ''ghost'', ''lead-1''] None) =
       [resultEntry ''lead-2'' (NotProgressed ''Conditions not met''
        (Some \<lparr>met = False,
          details = \<lparr>d_engagement_score = Some (50, 0, False),
            d_event_count = Some (3, 0, False),
            d_time_window = Some (168, 0, 2995200000, False),
            d_conversion_event = None, d_required_event_types = None\<rparr>,
          failedConditions =
            [''min_engagement_score'', ''min_events'', ''time_window_hours'']\<rparr>)),
        \<lparr>be_leadId = ''ghost'', be_progressed = False,
           be_error = Some ''Lead not found'', be_result = None\<rparr>]
       @ fst (batchAutoProgress exDb exNow [''lead-1''] None)"
    by simp
  from len obtain x where one: "fst (batchAutoProgress exDb exNow [''lead-1''] None) = [x]"
    by (cases "fst (batchAutoProgress exDb exNow [''lead-1''] None)") auto
  from after one have "be_progressed x" by simp
  with shape one dist ids d show ?thesis by simp
qed

text \<open>
  An input list that names a lead twice yields two entries with the same lead id.
\<close>

theorem batch_duplicate_ids_counterexample:
  "map be_leadId (fst (batchAutoProgress exDb exNow [''ghost'', ''ghost''] None))
     = [''ghost'', ''ghost'']
   \<and> \<not> distinct (map be_leadId (fst (batchAutoProgress exDb exNow [''ghost'', ''ghost''] None)))"
  by (simp add: autoProgressLead_def evaluateProgression_def exDb_ghost errorEntry_def)

section \<open>Properties of the number model\<close>

text \<open>
  \<open>floorLog2\<close> is the binary exponent of a positive rational, and \<open>dbl\<close> returns
  a multiple of the unit in the last place at that exponent, at most half a unit away.
\<close>

lemma bits_nonneg: "0 \<le> bits n"
proof (induction n rule: bits.induct)
  case (1 n)
  then show ?case by (subst bits.simps) simp
qed

lemma bits_bounds:
  "0 < n \<Longrightarrow> 2 ^ nat (bits n - 1) \<le> n \<and> n < 2 ^ nat (bits n)"
proof (induction n rule: bits.induct)
  case (1 n)
  show ?case
  proof (cases "n = 1")
    case True
    then show ?thesis by (simp add: bits.simps)
  next
    case False
    with 1(2) have h: "0 < n div 2" by simp
    from 1(1) 1(2) h have ih: "2 ^ nat (bits (n div 2) - 1) \<le> n div 2"
      "n div 2 < 2 ^ nat (bits (n div 2))" by simp_all
    have b: "bits n = 1 + bits (n div 2)" using 1(2) by (subst bits.simps) simp
    have p: "1 \<le> bits (n div 2)" using h bits_nonneg [of "n div 2 div 2"]
      by (subst bits.simps) simp
    from p have e1: "nat (bits n - 1) = Suc (nat (bits (n div 2) - 1))"
      unfolding b by simp
    from p have e2: "nat (bits n) = Suc (nat (bits (n div 2)))"
      unfolding b using bits_nonneg [of "n div 2"] by simp
    from ih show ?thesis unfolding e1 e2 by (simp; linarith)
  qed
qed

lemma floorLog2_bounds:
  assumes "0 < x"
  shows "pow2 (floorLog2 x) \<le> x \<and> x < pow2 (floorLog2 x + 1)"
proof (cases "1 \<le> x")
  case True
  let ?n = "\<lfloor>x\<rfloor>"
  from True have n: "0 < ?n" by simp
  from bits_bounds [OF n] have lo: "2 ^ nat (bits ?n - 1) \<le> ?n" and hi: "?n < 2 ^ nat (bits ?n)"
    by simp_all
  have b1: "1 \<le> bits ?n" using n bits_nonneg [of "?n div 2"] by (subst bits.simps) simp
  have "(2::rat) ^ nat (bits ?n - 1) = of_int (2 ^ nat (bits ?n - 1))" by simp
  also from lo have "\<dots> \<le> of_int ?n" by (simp only: of_int_le_iff)
  also have "\<dots> \<le> x" by simp
  finally have A: "(2::rat) ^ nat (bits ?n - 1) \<le> x" .
  from hi have ni: "?n + 1 \<le> 2 ^ nat (bits ?n)" by simp
  have "x < of_int (?n + 1)" by linarith
  also from ni have "(of_int (?n + 1) :: rat) \<le> of_int (2 ^ nat (bits ?n))"
    by (simp only: of_int_le_iff)
  also have "\<dots> = 2 ^ nat (bits ?n)" by simp
  finally have B: "x < (2::rat) ^ nat (bits ?n)" .
  have fe: "floorLog2 x = bits ?n - 1" using True by (simp add: floorLog2_def)
  have p1: "pow2 (bits ?n - 1) = 2 ^ nat (bits ?n - 1)" using b1 by (simp add: pow2_def)
  have p2: "pow2 (bits ?n - 1 + 1) = 2 ^ nat (bits ?n)" using b1 by (simp add: pow2_def)
  from A B show ?thesis unfolding fe p1 p2 by (rule conjI)
next
  case False
  let ?c = "\<lceil>1 / x\<rceil>"
  from False assms have x1: "x < 1" by simp
  with assms have inv: "1 < 1 / x" by simp
  then have c2: "2 \<le> ?c" by linarith
  then have n: "0 < ?c - 1" by simp
  from bits_bounds [OF n] have lo: "2 ^ nat (bits (?c - 1) - 1) \<le> ?c - 1"
    and hi: "?c - 1 < 2 ^ nat (bits (?c - 1))"
    by simp_all
  have b1: "1 \<le> bits (?c - 1)" using n bits_nonneg [of "(?c - 1) div 2"]
    by (subst bits.simps) simp
  from hi have ci: "?c \<le> 2 ^ nat (bits (?c - 1))" by simp
  have "1 / x \<le> of_int ?c" by simp
  also from ci have "(of_int ?c :: rat) \<le> of_int (2 ^ nat (bits (?c - 1)))"
    by (simp only: of_int_le_iff)
  also have "\<dots> = 2 ^ nat (bits (?c - 1))" by simp
  finally have "1 / x \<le> (2::rat) ^ nat (bits (?c - 1))" .
  with assms have A: "1 / 2 ^ nat (bits (?c - 1)) \<le> x"
    by (simp add: field_simps)
  have "(2::rat) ^ nat (bits (?c - 1) - 1) = of_int (2 ^ nat (bits (?c - 1) - 1))" by simp
  also from lo have "\<dots> \<le> of_int (?c - 1)"
    by (simp only: of_int_le_iff)
  also have "\<dots> < 1 / x" by linarith
  finally have "(2::rat) ^ nat (bits (?c - 1) - 1) < 1 / x" .
  with assms have B: "x < 1 / 2 ^ nat (bits (?c - 1) - 1)"
    by (simp add: field_simps)
  define k where "k = bits (?c - 1)"
  have fe: "floorLog2 x = - k" using False by (simp add: floorLog2_def k_def)
  from b1 have k1: "1 \<le> k" by (simp add: k_def)
  then have p1: "pow2 (- k) = 1 / 2 ^ nat k" by (simp add: pow2_def)
  have p2: "pow2 (- k + 1) = 1 / 2 ^ nat (k - 1)"
  proof (cases "k = 1")
    case True
    then show ?thesis by (simp add: pow2_def)
  next
    case False
    with k1 have "\<not> 0 \<le> - k + 1" and "nat (- (- k + 1)) = nat (k - 1)" by simp_all
    then show ?thesis by (simp only: pow2_def if_False)
  qed
  from A B have "pow2 (- k) \<le> x \<and> x < pow2 (- k + 1)"
    unfolding p1 p2 unfolding k_def by (rule conjI)
  then show ?thesis unfolding fe .
qed


lemma pow2_pos: "0 < pow2 k"
  by (simp add: pow2_def)

lemma roundHalfEven_nearest: "\<bar>of_int (roundHalfEven q) - q\<bar> \<le> 1 / 2"
proof -
  have "of_int \<lfloor>q\<rfloor> \<le> q" "q < of_int \<lfloor>q\<rfloor> + 1" by linarith+
  then show ?thesis
    by (auto simp: roundHalfEven_def Let_def abs_le_iff)
qed

lemma dbl_nearest:
  assumes "x \<noteq> 0"
  shows "dbl x = of_int (roundHalfEven (x / pow2 (max (floorLog2 \<bar>x\<bar>) (- 1022) - 52)))
                   * pow2 (max (floorLog2 \<bar>x\<bar>) (- 1022) - 52)
         \<and> \<bar>dbl x - x\<bar> \<le> pow2 (max (floorLog2 \<bar>x\<bar>) (- 1022) - 52) / 2"
proof -
  define u where "u = pow2 (max (floorLog2 \<bar>x\<bar>) (- 1022) - 52)"
  have u: "0 < u" by (simp add: u_def pow2_pos)
  from assms have d: "dbl x = of_int (roundHalfEven (x / u)) * u"
    by (simp add: dbl_def u_def Let_def)
  have "\<bar>of_int (roundHalfEven (x / u)) - x / u\<bar> \<le> 1 / 2"
    by (rule roundHalfEven_nearest)
  then have "\<bar>of_int (roundHalfEven (x / u)) - x / u\<bar> * u \<le> 1 / 2 * u"
    using u by (simp only: mult_le_cancel_right_pos)
  moreover have "\<bar>of_int (roundHalfEven (x / u)) - x / u\<bar> * u
                 = \<bar>of_int (roundHalfEven (x / u)) * u - x\<bar>"
  proof -
    have "\<bar>of_int (roundHalfEven (x / u)) - x / u\<bar> * u
            = \<bar>(of_int (roundHalfEven (x / u)) - x / u) * u\<bar>"
      using u by (simp add: abs_mult)
    also have "(of_int (roundHalfEven (x / u)) - x / u) * u
                 = of_int (roundHalfEven (x / u)) * u - x"
      using u by (simp add: field_simps)
    finally show ?thesis .
  qed
  ultimately have "\<bar>dbl x - x\<bar> \<le> u / 2" using d by simp
  with d show ?thesis unfolding u_def by simp
qed

section \<open>Properties of the scoring engine\<close>

text \<open>
  Claim C9. \<^verbatim>\<open>getRecommendedStage\<close> maps every score, under every rule set, to one
  of the four stages (a score below all three thresholds to \<open>User\<close>), and it is
  monotone: a larger score is never recommended an earlier stage of the funnel order
  \<open>User\<close>, \<open>Engaged_Lead\<close>, \<open>Qualified_Lead\<close>, \<open>Customer\<close>.
\<close>

theorem getRecommendedStage_total_monotone:
  "getRecommendedStage s rules \<in> {''User'', ''Engaged_Lead'', ''Qualified_Lead'', ''Customer''}
   \<and> (s < customer_threshold rules \<and> s < qualified_lead_threshold rules
        \<and> s < engaged_lead_threshold rules \<longrightarrow> getRecommendedStage s rules = ''User'')
   \<and> (s1 \<le> s2 \<longrightarrow>
        (\<exists>r1 r2. stageOrder (getRecommendedStage s1 rules) = Some r1
           \<and> stageOrder (getRecommendedStage s2 rules) = Some r2 \<and> r1 \<le> r2))"
  by (auto simp: getRecommendedStage_def stageOrder_def)

theorem getRecommendedStage_total_monotone_witness:
  "getRecommendedStage (-5) defaultScoringRules = ''User''
   \<and> stageOrder (getRecommendedStage 40 defaultScoringRules) = Some 1
   \<and> stageOrder (getRecommendedStage 200 defaultScoringRules) = Some 3"
proof -
  have a: "(-5::rat) < customer_threshold defaultScoringRules
       \<and> -5 < qualified_lead_threshold defaultScoringRules
       \<and> -5 < engaged_lead_threshold defaultScoringRules"
    by (simp add: defaultScoringRules_def)
  have b: "(40::rat) \<le> 200" by simp
  have c: "stageOrder (getRecommendedStage 40 defaultScoringRules) = Some 1"
    by (simp add: getRecommendedStage_def defaultScoringRules_def stageOrder_def)
  have d: "stageOrder (getRecommendedStage 200 defaultScoringRules) = Some 3"
    by (simp add: getRecommendedStage_def defaultScoringRules_def stageOrder_def)
  from getRecommendedStage_total_monotone [of "-5" defaultScoringRules 40 200] a b c d
  show ?thesis by simp
qed

text \<open>Evaluation of the double arithmetic at concrete numbers.\<close>

lemma floor_rat_numeral [simp]:
  "\<lfloor>numeral a / numeral b :: rat\<rfloor> = numeral a div numeral b"
  by (metis floor_divide_of_int_eq of_int_numeral)

lemma ceiling_rat_numeral [simp]:
  "\<lceil>numeral a / numeral b :: rat\<rceil> = - (- numeral a div numeral b)"
  by (metis ceiling_def floor_divide_of_int_eq minus_divide_left of_int_minus of_int_numeral)

lemmas dbl_eval = fl_def dbl_def floorLog2_def roundHalfEven_def pow2_def bits.simps Let_def

lemma default_rule_values:
  "login_points defaultScoringRules = 10"
  "email_engagement_multiplier defaultScoringRules = 1"
  "repeat_engagement_decay defaultScoringRules = 3602879701896397 / 4503599627370496"
  "high_value_action_bonus defaultScoringRules = 1 / 2"
  "first_time_bonus defaultScoringRules = 5404319552844595 / 4503599627370496"
  "consecutive_days_bonus defaultScoringRules = 3602879701896397 / 36028797018963968"
  "recent_activity_window defaultScoringRules = 24"
  "engagement_window defaultScoringRules = 168"
  "decay_start_hours defaultScoringRules = 72"
  by (simp_all add: defaultScoringRules_def dbl_eval)

lemma getScoringRules_again:
  "getScoringRules eng d pid = (rules, eng') \<Longrightarrow> getScoringRules eng' d pid = (rules, eng')"
  by (auto simp: getScoringRules_def Let_def split: option.splits)

lemma clamped_round_shape:
  "(\<exists>n\<ge>0. Math_max (Num 0) (Math_round t) = Num (of_int n))
   \<or> Math_max (Num 0) (Math_round t) = PosInf
   \<or> Math_max (Num 0) (Math_round t) = NaN"
proof (cases t)
  case (Num x)
  show ?thesis
  proof (cases "0 \<le> \<lfloor>x + 1 / 2\<rfloor>")
    case True
    with Num have "Math_max (Num 0) (Math_round t) = Num (of_int \<lfloor>x + 1 / 2\<rfloor>)"
      by (simp add: Math_max_def)
    with True show ?thesis by blast
  next
    case False
    with Num have "Math_max (Num 0) (Math_round t) = Num (of_int 0)"
      by (simp add: Math_max_def)
    then show ?thesis by blast
  qed
qed (simp_all add: Math_max_def)

lemma total_score_shape:
  "(\<exists>n\<ge>0. total_score (scoreFetched pw now rules events) = Num (of_int n))
   \<or> total_score (scoreFetched pw now rules events) = PosInf
   \<or> total_score (scoreFetched pw now rules events) = NaN"
  using clamped_round_shape by (simp add: scoreFetched_def Let_def)

lemma ascending_unique:
  assumes "ascending ord1 rows" and "ascending ord2 rows"
    and "distinct (map timestamp rows)"
  shows "ord1 rows = ord2 rows"
proof -
  let ?xs = "ord1 rows" and ?ys = "ord2 rows"
  from assms(1,2) have m: "mset ?xs = mset rows" "mset ?ys = mset rows"
    and s: "sorted (map timestamp ?xs)" "sorted (map timestamp ?ys)"
    by (simp_all add: ascending_def)
  from m have mm: "mset (map timestamp ?xs) = mset (map timestamp rows)"
    "mset (map timestamp ?ys) = mset (map timestamp rows)"
    by simp_all
  from mm assms(3) have d: "distinct (map timestamp ?xs)" "distinct (map timestamp ?ys)"
    by (metis mset_eq_imp_distinct_iff)+
  from mm have "set (map timestamp ?xs) = set (map timestamp ?ys)"
    by (metis mset_eq_setD)
  with s d have keys: "map timestamp ?xs = map timestamp ?ys"
    by (metis sorted_distinct_set_unique)
  from m have sets: "set ?xs = set rows" "set ?ys = set rows"
    by (metis mset_eq_setD)+
  from assms(3) have "inj_on timestamp (set rows)"
    by (simp add: distinct_map)
  with sets have "inj_on timestamp (set ?xs \<union> set ?ys)" by simp
  with keys show ?thesis by (simp add: inj_on_map_eq_map)
qed

lemma ascending_tableOrder: "ascending tableOrder rows"
  by (simp add: ascending_def tableOrder_def)

lemma ascending_reverseTableOrder: "ascending reverseTableOrder rows"
  by (simp add: ascending_def reverseTableOrder_def)

lemma login_base_score:
  "event_type e = ''login'' \<Longrightarrow> calculateEventScore e defaultScoringRules = Num 10"
  by (simp add: calculateEventScore_def default_rule_values dbl_eval)

lemma applyTimeDecay_fresh:
  "jle (hoursAgo now t) (Num (decay_start_hours rules)) \<Longrightarrow>
     applyTimeDecay pw now s t rules = s"
  by (simp add: applyTimeDecay_def)

lemma consecutiveLoop_no_days: "consecutiveLoop n [] checkDate c = c"
  by (cases n) simp_all

lemma consecutiveLoop_stop:
  "checkDate \<notin> set days \<Longrightarrow> consecutiveLoop n days checkDate c = c"
  by (cases n) simp_all

lemma bonusBeforeDecay_no_history:
  "bonusBeforeDecay e [] rules =
     (let m1 = (if isHighValue e then jadd (Num 1) (Num (high_value_action_bonus rules))
                else Num 1)
      in jadd m1 (jsub (Num (first_time_bonus rules)) (Num 1)))"
  by (simp add: bonusBeforeDecay_def previousSameTypeEvents_def calculateConsecutiveDays_def
        consecutiveLoop_no_days Let_def)

lemma bonusMultiplier_no_history:
  "bonusMultiplier pw e [] rules = bonusBeforeDecay e [] rules"
  by (simp add: bonusMultiplier_def sameTypeCount_def)

lemma single_login_final:
  "applyEngagementBonuses pw (Num 10) e [] defaultScoringRules
     = Num (if isHighValue e then 17 else 12)"
  by (simp add: applyEngagementBonuses_def bonusMultiplier_no_history
        bonusBeforeDecay_no_history default_rule_values jsub_def dbl_eval)

lemma scoreFetched_single_login:
  assumes "event_type e = ''login''"
    and "jle (hoursAgo now (timestamp e)) (Num (decay_start_hours defaultScoringRules))"
  shows "total_score (scoreFetched pw now defaultScoringRules [e]) =
           Num ((if isHighValue e then 17 else 12)
                + (if jle (hoursAgo now (timestamp e)) (Num 24) then 5 else 0))"
proof -
  have entries: "map se_final (scoreEvents pw now defaultScoringRules [] [e])
                   = [Num (if isHighValue e then 17 else 12)]"
    by (simp add: login_base_score [OF assms(1)] applyTimeDecay_fresh [OF assms(2)]
          single_login_final Let_def)
  show ?thesis
    unfolding scoreFetched_def Let_def entries
    by (simp add: default_rule_values Math_min_def Math_max_def dbl_eval
          del: scoreEvents.simps)
qed


lemma default_cutoff:
  "cutoffTime exNow defaultScoringRules = Some 2995200000"
  by (simp add: cutoffTime_def default_rule_values exNow_def jsub_def timeClip_def dbl_eval)

lemma exSingle_rules:
  "getScoringRules exEngine exSingleDb ''p'' =
     (defaultScoringRules, \<lparr>productConfigs = [''p'' \<mapsto> defaultScoringRules]\<rparr>)"
  by (simp add: getScoringRules_def exEngine_def exSingleDb_def)

lemma exSingle_window:
  "windowRows exSingleDb ''lead-1'' 2995200000 = [exLogin ''e1'' 3599000000]"
  by (simp add: windowRows_def exSingleDb_def exLogin_def)

lemma exSingle_fetch:
  "fetchWindowEvents tableOrder exSingleDb ''lead-1'' 2995200000
     = [exLogin ''e1'' 3599000000]"
  by (simp add: fetchWindowEvents_def exSingle_window tableOrder_def)

lemma exSingle_age:
  "jle (hoursAgo exNow (timestamp (exLogin ''e1'' 3599000000))) (Num 24)"
  "jle (hoursAgo exNow (timestamp (exLogin ''e1'' 3599000000)))
     (Num (decay_start_hours defaultScoringRules))"
  by (simp_all add: hoursAgo_def exNow_def exLogin_def msPerHour_def jsub_def
        default_rule_values dbl_eval)

lemma exSingle_type:
  "event_type (exLogin eid t) = ''login''" "\<not> isHighValue (exLogin eid t)"
  by (simp_all add: exLogin_def isHighValue_def)

lemma consecutiveLoop_step:
  "0 < n \<Longrightarrow> checkDate \<in> set days \<Longrightarrow>
     consecutiveLoop n days checkDate c = consecutiveLoop (n - 1) days (checkDate - 1) (c + 1)"
  by (cases n) simp_all

lemmas bonus_eval =
  applyEngagementBonuses_def bonusMultiplier_def bonusBeforeDecay_def isHighValue_def
  previousSameTypeEvents_def sameTypeCount_def calculateConsecutiveDays_def dayOf_def
  msPerHour_def consecutiveLoop_stop consecutiveLoop_step jsub_def Math_min_def

lemma exDb_rules:
  "getScoringRules exEngine exDb ''p'' =
     (defaultScoringRules, \<lparr>productConfigs = [''p'' \<mapsto> defaultScoringRules]\<rparr>)"
  by (simp add: getScoringRules_def exEngine_def exDb_def)

lemma exDb_window:
  "windowRows exDb ''lead-1'' 2995200000 =
     [exLogin ''e1'' 3599000000, exLogin ''e2'' 3599100000, exLogin ''e3'' 3599200000]"
  by (simp add: windowRows_def exDb_def exLogin_def)

lemma exSingle_run:
  "fst (calculateLeadScore roundedPow tableOrder exEngine exSingleDb exNow ''lead-1'' ''p'')
     = Some (scoreFetched roundedPow exNow defaultScoringRules [exLogin ''e1'' 3599000000])"
  by (simp add: calculateLeadScore_def exSingle_rules default_cutoff exSingle_fetch)

text \<open>
  Claim C3, as amended. With the clock fixed, a second run of \<^verbatim>\<open>calculateLeadScore\<close>
  on the same lead, product and store returns the same result as the first (from the
  engine state the first run left, its rule cache filled) when the store returns the
  fetched rows in the same order; it must do so when the fetched events have pairwise
  distinct timestamps, for then every answer to \<^verbatim>\<open>ORDER BY timestamp ASC\<close> is the
  same. The total score returned is a non-negative integer whenever it is finite, and
  otherwise Infinity or NaN.
\<close>

theorem calculateLeadScore_runs_amended:
  "fst (calculateLeadScore pw ord (snd (calculateLeadScore pw ord eng d now leadId pid))
          d now leadId pid)
     = fst (calculateLeadScore pw ord eng d now leadId pid)
   \<and> (cutoffTime now (fst (getScoringRules eng d pid)) = Some cutoff
        \<and> distinct (map timestamp (windowRows d leadId cutoff))
        \<and> ascending ord (windowRows d leadId cutoff)
        \<and> ascending ord' (windowRows d leadId cutoff)
      \<longrightarrow> fst (calculateLeadScore pw ord' eng d now leadId pid)
            = fst (calculateLeadScore pw ord eng d now leadId pid))
   \<and> (fst (calculateLeadScore pw ord eng d now leadId pid) = Some r
      \<longrightarrow> (\<exists>n\<ge>0. total_score r = Num (of_int n))
          \<or> total_score r = PosInf \<or> total_score r = NaN)"
proof -
  obtain rules eng' where g: "getScoringRules eng d pid = (rules, eng')"
    by (cases "getScoringRules eng d pid")
  have again: "fst (calculateLeadScore pw ord (snd (calculateLeadScore pw ord eng d now leadId pid))
          d now leadId pid)
     = fst (calculateLeadScore pw ord eng d now leadId pid)"
    using getScoringRules_again [OF g] g
    by (simp add: calculateLeadScore_def split: option.splits)
  have order: "fst (calculateLeadScore pw ord' eng d now leadId pid)
            = fst (calculateLeadScore pw ord eng d now leadId pid)"
    if c: "cutoffTime now (fst (getScoringRules eng d pid)) = Some cutoff"
      and dis: "distinct (map timestamp (windowRows d leadId cutoff))"
      and a: "ascending ord (windowRows d leadId cutoff)"
      and a': "ascending ord' (windowRows d leadId cutoff)"
  proof -
    from ascending_unique [OF a' a dis]
    have "fetchWindowEvents ord' d leadId cutoff = fetchWindowEvents ord d leadId cutoff"
      by (simp add: fetchWindowEvents_def)
    with c g show ?thesis by (simp add: calculateLeadScore_def)
  qed
  have shape: "(\<exists>n\<ge>0. total_score r = Num (of_int n))
          \<or> total_score r = PosInf \<or> total_score r = NaN"
    if "fst (calculateLeadScore pw ord eng d now leadId pid) = Some r"
    using that g total_score_shape
    by (auto simp: calculateLeadScore_def split: option.splits)
  from again order shape show ?thesis by blast
qed

theorem calculateLeadScore_runs_amended_witness:
  "fst (calculateLeadScore roundedPow tableOrder
          (snd (calculateLeadScore roundedPow tableOrder exEngine exDb exNow ''lead-1'' ''p''))
          exDb exNow ''lead-1'' ''p'')
     = fst (calculateLeadScore roundedPow tableOrder exEngine exDb exNow ''lead-1'' ''p'')
   \<and> fst (calculateLeadScore roundedPow reverseTableOrder exEngine exDb exNow ''lead-1'' ''p'')
     = fst (calculateLeadScore roundedPow tableOrder exEngine exDb exNow ''lead-1'' ''p'')
   \<and> ((\<exists>n\<ge>0. total_score (scoreFetched roundedPow exNow defaultScoringRules
                     [exLogin ''e1'' 3599000000]) = Num (of_int n))
        \<or> total_score (scoreFetched roundedPow exNow defaultScoringRules
                     [exLogin ''e1'' 3599000000]) = PosInf
        \<or> total_score (scoreFetched roundedPow exNow defaultScoringRules
                     [exLogin ''e1'' 3599000000]) = NaN)"
proof -
  have c: "cutoffTime exNow (fst (getScoringRules exEngine exDb ''p'')) = Some 2995200000"
    by (simp add: exDb_rules default_cutoff)
  have dis: "distinct (map timestamp (windowRows exDb ''lead-1'' 2995200000))"
    by (simp add: exDb_window exLogin_def)
  from calculateLeadScore_runs_amended
    [of roundedPow tableOrder exEngine exDb exNow "''lead-1''" "''p''" 2995200000
        reverseTableOrder]
    c dis ascending_tableOrder ascending_reverseTableOrder
  have a: "fst (calculateLeadScore roundedPow tableOrder
          (snd (calculateLeadScore roundedPow tableOrder exEngine exDb exNow ''lead-1'' ''p''))
          exDb exNow ''lead-1'' ''p'')
     = fst (calculateLeadScore roundedPow tableOrder exEngine exDb exNow ''lead-1'' ''p'')"
    and b: "fst (calculateLeadScore roundedPow reverseTableOrder exEngine exDb exNow
                   ''lead-1'' ''p'')
     = fst (calculateLeadScore roundedPow tableOrder exEngine exDb exNow ''lead-1'' ''p'')"
    by blast+
  from calculateLeadScore_runs_amended
    [of roundedPow tableOrder exEngine exSingleDb exNow "''lead-1''" "''p''" _ _
        "scoreFetched roundedPow exNow defaultScoringRules [exLogin ''e1'' 3599000000]"]
    exSingle_run
  have s: "(\<exists>n\<ge>0. total_score (scoreFetched roundedPow exNow defaultScoringRules
                     [exLogin ''e1'' 3599000000]) = Num (of_int n))
        \<or> total_score (scoreFetched roundedPow exNow defaultScoringRules
                     [exLogin ''e1'' 3599000000]) = PosInf
        \<or> total_score (scoreFetched roundedPow exNow defaultScoringRules
                     [exLogin ''e1'' 3599000000]) = NaN"
    by blast
  from a b s show ?thesis by blast
qed

lemma exHuge_rules:
  "getScoringRules exEngine exHugeDb ''p'' =
     (exHugeRules, \<lparr>productConfigs = [''p'' \<mapsto> exHugeRules]\<rparr>)"
  by (simp add: getScoringRules_def exEngine_def exHugeDb_def mergeRules_def setRule_def
        exHugeRules_def Let_def)

lemma exHuge_values:
  "login_points exHugeRules = exHugePoints"
  "first_time_bonus exHugeRules = 3"
  "decay_start_hours exHugeRules = 72"
  "recent_activity_window exHugeRules = 24"
  "engagement_window exHugeRules = 168"
  by (simp_all add: exHugeRules_def defaultScoringRules_def)

lemma exHuge_cutoff: "cutoffTime exNow exHugeRules = Some 2995200000"
  using default_cutoff by (simp add: cutoffTime_def exHuge_values default_rule_values)

lemma exHuge_fetch:
  "fetchWindowEvents tableOrder exHugeDb ''lead-1'' 2995200000
     = [exLogin ''e1'' 3599000000]"
  by (simp add: fetchWindowEvents_def windowRows_def exHugeDb_def exLogin_def tableOrder_def)

lemma Math_round_int: "Math_round (Num (of_int n)) = Num (of_int n)"
  by (simp add: floor_eq_iff)

lemma exHuge_base:
  "calculateEventScore (exLogin eid t) exHugeRules = Num exHugePoints"
  using Math_round_int [of "2 ^ 1023"]
  by (simp add: calculateEventScore_def exLogin_def exHuge_values exHugePoints_def
        del: Math_round.simps)

lemma exHuge_final:
  "applyEngagementBonuses roundedPow (Num exHugePoints) (exLogin eid t) [] exHugeRules
     = PosInf"
proof -
  have m: "bonusMultiplier roundedPow (exLogin eid t) [] exHugeRules = Num 3"
    by (simp add: bonusMultiplier_no_history bonusBeforeDecay_no_history exSingle_type
          exHuge_values jsub_def dbl_eval)
  have "fl (exHugePoints * 3) = PosInf"
    by (simp add: fl_def exHugePoints_def)
  with m show ?thesis by (simp add: applyEngagementBonuses_def)
qed

lemma exHuge_total:
  "map_option total_score
     (fst (calculateLeadScore roundedPow tableOrder exEngine exHugeDb exNow ''lead-1'' ''p''))
     = Some PosInf"
proof -
  have fresh: "jle (hoursAgo exNow (timestamp (exLogin ''e1'' 3599000000)))
     (Num (decay_start_hours exHugeRules))"
    using exSingle_age(2) by (simp add: exHuge_values default_rule_values)
  have entries: "map se_final (scoreEvents roundedPow exNow exHugeRules []
       [exLogin ''e1'' 3599000000]) = [PosInf]"
    by (simp add: exHuge_base applyTimeDecay_fresh [OF fresh] exHuge_final Let_def)
  have "total_score (scoreFetched roundedPow exNow exHugeRules
       [exLogin ''e1'' 3599000000]) = PosInf"
    unfolding scoreFetched_def Let_def entries
    by (simp add: Math_max_def Math_min_def exSingle_age exHuge_values dbl_eval
          del: scoreEvents.simps)
  then show ?thesis
    by (simp add: calculateLeadScore_def exHuge_rules exHuge_cutoff exHuge_fetch)
qed


lemma exTie_rules:
  "getScoringRules exEngine exTieDb ''p'' =
     (defaultScoringRules, \<lparr>productConfigs = [''p'' \<mapsto> defaultScoringRules]\<rparr>)"
  by (simp add: getScoringRules_def exEngine_def exTieDb_def)

lemma exTie_window:
  "windowRows exTieDb ''lead-1'' 2995200000 =
     [exLogin ''e1'' 3599000000, exLogin ''e2'' 3599000000, exHighLogin ''e3'' 3599000000]"
  by (simp add: windowRows_def exTieDb_def exLogin_def exHighLogin_def)

lemma exTie_orders:
  "fetchWindowEvents tableOrder exTieDb ''lead-1'' 2995200000 =
     [exLogin ''e1'' 3599000000, exLogin ''e2'' 3599000000, exHighLogin ''e3'' 3599000000]"
  "fetchWindowEvents reverseTableOrder exTieDb ''lead-1'' 2995200000 =
     [exHighLogin ''e3'' 3599000000, exLogin ''e2'' 3599000000, exLogin ''e1'' 3599000000]"
  by (simp_all add: fetchWindowEvents_def exTie_window tableOrder_def reverseTableOrder_def
        exLogin_def exHighLogin_def)

lemma exTie_facts:
  "event_type (exHighLogin eid t) = ''login''"
  "isHighValue (exHighLogin eid t)"
  "timestamp (exHighLogin eid t) = t"
  "timestamp (exLogin eid t) = t"
  by (simp_all add: exHighLogin_def exLogin_def isHighValue_def)

lemma exTie_fresh:
  "jle (hoursAgo exNow 3599000000) (Num (decay_start_hours defaultScoringRules))"
  "jle (hoursAgo exNow 3599000000) (Num 24)"
  using exSingle_age by (simp_all add: exTie_facts)

lemma exTie_finals:
  "applyEngagementBonuses roundedPow (Num 10) (exLogin ''e2'' 3599000000)
     [exLogin ''e1'' 3599000000] defaultScoringRules = Num 12"
  "applyEngagementBonuses roundedPow (Num 10) (exHighLogin ''e3'' 3599000000)
     [exLogin ''e1'' 3599000000, exLogin ''e2'' 3599000000] defaultScoringRules = Num 14"
  "applyEngagementBonuses roundedPow (Num 10) (exLogin ''e2'' 3599000000)
     [exHighLogin ''e3'' 3599000000] defaultScoringRules = Num 12"
  "applyEngagementBonuses roundedPow (Num 10) (exLogin ''e1'' 3599000000)
     [exHighLogin ''e3'' 3599000000, exLogin ''e2'' 3599000000] defaultScoringRules
     = Num 10"
  by (simp_all add: bonus_eval exLogin_def exHighLogin_def default_rule_values dbl_eval)

lemma exTie_totals:
  "map_option total_score
     (fst (calculateLeadScore roundedPow tableOrder exEngine exTieDb exNow ''lead-1'' ''p''))
     = Some (Num 53)"
  "map_option total_score
     (fst (calculateLeadScore roundedPow reverseTableOrder exEngine exTieDb exNow
             ''lead-1'' ''p''))
     = Some (Num 54)"
proof -
  have e1: "map se_final (scoreEvents roundedPow exNow defaultScoringRules []
       [exLogin ''e1'' 3599000000, exLogin ''e2'' 3599000000,
        exHighLogin ''e3'' 3599000000]) = [Num 12, Num 12, Num 14]"
    by (simp add: login_base_score exSingle_type exTie_facts applyTimeDecay_fresh exTie_fresh
          single_login_final exTie_finals Let_def)
  have e2: "map se_final (scoreEvents roundedPow exNow defaultScoringRules []
       [exHighLogin ''e3'' 3599000000, exLogin ''e2'' 3599000000,
        exLogin ''e1'' 3599000000]) = [Num 17, Num 12, Num 10]"
    by (simp add: login_base_score exSingle_type exTie_facts applyTimeDecay_fresh exTie_fresh
          single_login_final exTie_finals Let_def)
  have t1: "total_score (scoreFetched roundedPow exNow defaultScoringRules
       [exLogin ''e1'' 3599000000, exLogin ''e2'' 3599000000,
        exHighLogin ''e3'' 3599000000]) = Num 53"
    unfolding scoreFetched_def Let_def e1
    by (simp add: Math_max_def Math_min_def exTie_facts exTie_fresh default_rule_values
          dbl_eval del: scoreEvents.simps)
  have t2: "total_score (scoreFetched roundedPow exNow defaultScoringRules
       [exHighLogin ''e3'' 3599000000, exLogin ''e2'' 3599000000,
        exLogin ''e1'' 3599000000]) = Num 54"
    unfolding scoreFetched_def Let_def e2
    by (simp add: Math_max_def Math_min_def exTie_facts exTie_fresh default_rule_values
          dbl_eval del: scoreEvents.simps)
  from t1 show "map_option total_score
     (fst (calculateLeadScore roundedPow tableOrder exEngine exTieDb exNow ''lead-1'' ''p''))
     = Some (Num 53)"
    by (simp add: calculateLeadScore_def exTie_rules default_cutoff exTie_orders)
  from t2 show "map_option total_score
     (fst (calculateLeadScore roundedPow reverseTableOrder exEngine exTieDb exNow
             ''lead-1'' ''p''))
     = Some (Num 54)"
    by (simp add: calculateLeadScore_def exTie_rules default_cutoff exTie_orders)
qed

text \<open>
  With \<^verbatim>\<open>login_points\<close> \<open>2 ^ 1023\<close> and \<^verbatim>\<open>first_time_bonus\<close> 3, one fresh login
  scores Infinity. And for three logins at the same instant, two stores that both
  answer the query in ascending order of timestamp give the totals 53 and 54.
\<close>

theorem calculateLeadScore_counterexample:
  "map_option total_score
     (fst (calculateLeadScore roundedPow tableOrder exEngine exHugeDb exNow ''lead-1'' ''p''))
     = Some PosInf
   \<and> ascending tableOrder (windowRows exTieDb ''lead-1'' 2995200000)
   \<and> ascending reverseTableOrder (windowRows exTieDb ''lead-1'' 2995200000)
   \<and> map_option total_score
       (fst (calculateLeadScore roundedPow tableOrder exEngine exTieDb exNow ''lead-1'' ''p''))
     = Some (Num 53)
   \<and> map_option total_score
       (fst (calculateLeadScore roundedPow reverseTableOrder exEngine exTieDb exNow
               ''lead-1'' ''p''))
     = Some (Num 54)"
  using exHuge_total exTie_totals ascending_tableOrder ascending_reverseTableOrder
  by simp

text \<open>
  Claim C6, as amended. Under the default rules, when the fetched history is exactly one
  \<open>login\<close> event no older than \<open>decay_start_hours\<close>, its base and decayed score
  is 10, the first-time bonus makes its final score 12 (17 with
  \<open>high_value_action\<close>), and the total adds the recent-activity bonus of 5 when
  the event is at most 24 hours old: the total is 12 or 17 (17 or 22 when high value).
\<close>

theorem single_login_score_amended:
  assumes "getScoringRules eng d pid = (defaultScoringRules, eng')"
    and "cutoffTime now defaultScoringRules = Some cutoff"
    and "fetchWindowEvents ord d leadId cutoff = [e]"
    and "event_type e = ''login''"
    and "jle (hoursAgo now (timestamp e)) (Num (decay_start_hours defaultScoringRules))"
  shows "map_option total_score (fst (calculateLeadScore pw ord eng d now leadId pid)) =
           Some (Num ((if isHighValue e then 17 else 12)
                      + (if jle (hoursAgo now (timestamp e)) (Num 24) then 5 else 0)))"
proof -
  from assms(1,2,3) have "fst (calculateLeadScore pw ord eng d now leadId pid)
      = Some (scoreFetched pw now defaultScoringRules [e])"
    by (simp add: calculateLeadScore_def)
  with scoreFetched_single_login [OF assms(4,5)] show ?thesis by simp
qed

theorem single_login_score_amended_witness:
  "map_option total_score
     (fst (calculateLeadScore roundedPow tableOrder exEngine exSingleDb exNow ''lead-1'' ''p''))
     = Some (Num 17)"
proof -
  from single_login_score_amended
    [OF exSingle_rules default_cutoff exSingle_fetch exSingle_type(1) exSingle_age(2),
     where pw = roundedPow]
  show ?thesis by (simp add: exSingle_age exSingle_type)
qed

text \<open>
  One fresh \<open>login\<close> event under the default rules does not score 10.
\<close>

theorem single_login_score_counterexample:
  "fetchWindowEvents tableOrder exSingleDb ''lead-1'' 2995200000
     = [exLogin ''e1'' 3599000000]
   \<and> map_option scoring_rules_used
       (fst (calculateLeadScore roundedPow tableOrder exEngine exSingleDb exNow ''lead-1'' ''p''))
     = Some defaultScoringRules
   \<and> jle (hoursAgo exNow (timestamp (exLogin ''e1'' 3599000000)))
       (Num (decay_start_hours defaultScoringRules))
   \<and> map_option total_score
       (fst (calculateLeadScore roundedPow tableOrder exEngine exSingleDb exNow ''lead-1'' ''p''))
     = Some (Num 17)
   \<and> Num 17 \<noteq> Num 10"
proof -
  have run: "fst (calculateLeadScore roundedPow tableOrder exEngine exSingleDb exNow
                ''lead-1'' ''p'')
      = Some (scoreFetched roundedPow exNow defaultScoringRules [exLogin ''e1'' 3599000000])"
    by (simp add: calculateLeadScore_def exSingle_rules default_cutoff exSingle_fetch)
  have used: "scoring_rules_used (scoreFetched roundedPow exNow defaultScoringRules
                [exLogin ''e1'' 3599000000]) = defaultScoringRules"
    by (simp add: scoreFetched_def Let_def del: scoreEvents.simps)
  from scoreFetched_single_login [OF exSingle_type(1) exSingle_age(2)]
  have "total_score (scoreFetched roundedPow exNow defaultScoringRules
          [exLogin ''e1'' 3599000000]) = Num 17"
    by (simp add: exSingle_age exSingle_type)
  with run used exSingle_fetch exSingle_age(2) show ?thesis by simp
qed

lemma exRepeat_count:
  "sameTypeCount (exLogin ''e2'' 3599100000) [exLogin ''e1'' 3599000000] = 1"
  "sameTypeCount (exLogin ''e3'' 3599200000)
     [exLogin ''e1'' 3599000000, exLogin ''e2'' 3599100000] = 2"
  by (simp_all add: sameTypeCount_def exLogin_def)

lemma exRepeat_before:
  "bonusBeforeDecay (exLogin ''e2'' 3599100000) [exLogin ''e1'' 3599000000] rules = Num 1"
  "bonusBeforeDecay (exLogin ''e3'' 3599200000)
     [exLogin ''e1'' 3599000000, exLogin ''e2'' 3599100000] rules = Num 1"
  by (simp_all add: bonusBeforeDecay_def isHighValue_def previousSameTypeEvents_def
        calculateConsecutiveDays_def exLogin_def dayOf_def msPerHour_def Let_def
        consecutiveLoop_stop)

lemma roundedPow_one: "roundedPow (Num (dbl (7 / 10))) (Num 1) = Num (dbl (7 / 10))"
  by (simp add: dbl_eval)

text \<open>
  Claim C4, as amended. When the history passed to \<^verbatim>\<open>applyEngagementBonuses\<close> holds
  \<open>N \<ge> 1\<close> events of the event's type, the bonus multiplier is multiplied by
  \<^verbatim>\<open>Math.pow(repeat_engagement_decay, N - 1)\<close> when \<open>N \<ge> 2\<close> and is left as it
  is when \<open>N = 1\<close>: the second occurrence of a type is not scaled, the third is
  scaled by the decay once. The event's score is the rounded product of the decayed
  score and that multiplier.
\<close>

theorem repeat_decay_amended:
  assumes "sameTypeCount e eventHistory = N" and "1 \<le> N"
  shows "bonusMultiplier pw e eventHistory rules =
           (if N = 1 then bonusBeforeDecay e eventHistory rules
            else jmul (bonusBeforeDecay e eventHistory rules)
                   (pw (Num (repeat_engagement_decay rules)) (Num (of_nat N - 1))))
         \<and> applyEngagementBonuses pw s e eventHistory rules =
           Math_round (jmul s
             (if N = 1 then bonusBeforeDecay e eventHistory rules
              else jmul (bonusBeforeDecay e eventHistory rules)
                     (pw (Num (repeat_engagement_decay rules)) (Num (of_nat N - 1)))))"
proof -
  have m: "bonusMultiplier pw e eventHistory rules =
           (if N = 1 then bonusBeforeDecay e eventHistory rules
            else jmul (bonusBeforeDecay e eventHistory rules)
                   (pw (Num (repeat_engagement_decay rules)) (Num (of_nat N - 1))))"
  proof (cases "N = 1")
    case True
    with assms(1) show ?thesis by (simp add: bonusMultiplier_def Let_def)
  next
    case False
    with assms(2) have "N > 1" by simp
    with assms(1) False show ?thesis by (simp add: bonusMultiplier_def Let_def)
  qed
  show ?thesis
    unfolding applyEngagementBonuses_def m by simp
qed

theorem repeat_decay_amended_witness:
  "sameTypeCount (exLogin ''e3'' 3599200000)
       [exLogin ''e1'' 3599000000, exLogin ''e2'' 3599100000] = 2
   \<and> bonusMultiplier roundedPow (exLogin ''e3'' 3599200000)
       [exLogin ''e1'' 3599000000, exLogin ''e2'' 3599100000] exDecayRules
       = Num (dbl (7 / 10))
   \<and> applyEngagementBonuses roundedPow (Num 45) (exLogin ''e3'' 3599200000)
       [exLogin ''e1'' 3599000000, exLogin ''e2'' 3599100000] exDecayRules = Num 31"
proof -
  have n: "(1::nat) \<le> 2" by simp
  have d: "repeat_engagement_decay exDecayRules = dbl (7 / 10)"
    by (simp add: exDecayRules_def)
  have one: "jmul (Num 1) (Num (dbl (7 / 10))) = Num (dbl (7 / 10))"
    by (simp add: dbl_eval)
  have r: "Math_round (jmul (Num 45) (Num (dbl (7 / 10)))) = Num 31"
    by (simp add: dbl_eval)
  from repeat_decay_amended [OF exRepeat_count(2) n,
      where pw = roundedPow and s = "Num 45" and rules = exDecayRules]
  show ?thesis
    by (simp add: exRepeat_count exRepeat_before d roundedPow_one one r
          del: roundedPow.simps jmul.simps Math_round.simps)
qed

text \<open>
  With one earlier \<open>login\<close> in the history, the multiplier of the second is 1, not
  the decay 0.8, and its score stays 10.
\<close>

theorem repeat_decay_counterexample:
  "sameTypeCount (exLogin ''e2'' 3599100000) [exLogin ''e1'' 3599000000] = 1
   \<and> bonusMultiplier roundedPow (exLogin ''e2'' 3599100000) [exLogin ''e1'' 3599000000]
         defaultScoringRules = Num 1
   \<and> jmul (bonusBeforeDecay (exLogin ''e2'' 3599100000) [exLogin ''e1'' 3599000000]
              defaultScoringRules)
           (roundedPow (Num (repeat_engagement_decay defaultScoringRules)) (Num 1))
       = Num (dbl (8 / 10))
   \<and> Num (dbl (8 / 10)) \<noteq> Num 1
   \<and> applyEngagementBonuses roundedPow (Num 10) (exLogin ''e2'' 3599100000)
         [exLogin ''e1'' 3599000000] defaultScoringRules = Num 10"
  by (simp add: applyEngagementBonuses_def bonusMultiplier_def exRepeat_count exRepeat_before
        default_rule_values dbl_eval)

lemma exHighValue_facts:
  "isHighValue exHighValue" "sameTypeCount exHighValue [] = 0"
  "calculateConsecutiveDays exHighValue [] = 1"
  "sameTypeCount exHighValue exStreak = 0"
  "calculateConsecutiveDays exHighValue exStreak = 6"
  by (simp_all add: exHighValue_def isHighValue_def sameTypeCount_def exStreak_def exOpen_def
        calculateConsecutiveDays_def consecutiveLoop_no_days consecutiveLoop_stop
        consecutiveLoop_step dayOf_def msPerHour_def)

text \<open>
  Claim C5, as amended. For an event with \<open>high_value_action\<close> and no event of its
  type in the history, the final score is the decayed score times one additive
  multiplier, rounded: \<open>(1 + high_value_action_bonus) + (first_time_bonus - 1)\<close>,
  plus the consecutive-day bonus when that applies, each sum and the product taken in
  double arithmetic. The high-value and first-time bonuses are summed, not multiplied
  together.
\<close>

theorem bonuses_additive_amended:
  assumes "isHighValue e" and "sameTypeCount e eventHistory = 0"
  shows "applyEngagementBonuses pw s e eventHistory rules =
           Math_round (jmul s
             (let m = jadd (jadd (Num 1) (Num (high_value_action_bonus rules)))
                           (jsub (Num (first_time_bonus rules)) (Num 1));
                  consecutiveDays = calculateConsecutiveDays e eventHistory
              in if consecutiveDays > 1
                 then jadd m (Math_min (jmul (Num (of_nat consecutiveDays))
                                             (Num (consecutive_days_bonus rules)))
                                       (Num 1))
                 else m))"
proof -
  from assms(2) have "filter (\<lambda>h. event_type h = event_type e) eventHistory = []"
    by (simp add: sameTypeCount_def)
  then have "\<forall>h \<in> set eventHistory. event_type h \<noteq> event_type e"
    by (simp add: filter_empty_conv)
  then have first: "previousSameTypeEvents e eventHistory = []"
    by (simp add: previousSameTypeEvents_def filter_empty_conv)
  from assms first show ?thesis
    by (simp add: applyEngagementBonuses_def bonusMultiplier_def bonusBeforeDecay_def Let_def)
qed

theorem bonuses_additive_amended_witness:
  "isHighValue exHighValue \<and> sameTypeCount exHighValue exStreak = 0
   \<and> calculateConsecutiveDays exHighValue exStreak = 6
   \<and> applyEngagementBonuses roundedPow (Num 25) exHighValue exStreak defaultScoringRules
       = Num 57"
proof -
  have v: "Math_round (jmul (Num 25)
             (jadd (jadd (jadd (Num 1) (Num (high_value_action_bonus defaultScoringRules)))
                         (jsub (Num (first_time_bonus defaultScoringRules)) (Num 1)))
                   (Math_min (jmul (Num 6) (Num (consecutive_days_bonus defaultScoringRules)))
                             (Num 1)))) = Num 57"
    by (simp add: default_rule_values jsub_def Math_min_def dbl_eval)
  from bonuses_additive_amended [OF exHighValue_facts(1,4),
      where pw = roundedPow and s = "Num 25" and rules = defaultScoringRules]
  show ?thesis
    using v
    by (simp add: exHighValue_facts Let_def del: jadd.simps jmul.simps Math_round.simps)
qed

text \<open>
  Under the default rules a high-value first login of decayed score 10 scores 17; the
  product of the two factors would give 18.
\<close>

theorem bonuses_multiplicative_counterexample:
  "isHighValue exHighValue \<and> sameTypeCount exHighValue [] = 0
   \<and> applyEngagementBonuses roundedPow (Num 10) exHighValue [] defaultScoringRules = Num 17
   \<and> Math_round (jmul (jmul (Num 10)
                           (jadd (Num 1) (Num (high_value_action_bonus defaultScoringRules))))
                     (Num (first_time_bonus defaultScoringRules))) = Num 18"
  by (simp add: single_login_final exHighValue_facts default_rule_values dbl_eval)

end
